theory Spec2Isabelle
  imports Complex_Main "HOL-Library.Multiset"
begin

section \<open>JavaScript values as the dashboard code sees them\<close>

text \<open>
  A response body is whatever \<^verbatim>\<open>JSON.parse\<close> hands to axios. Numbers are IEEE doubles:
  every finite double is a rational, and the three non-finite values are constructors of
  their own. An array carries, besides its elements, the named properties assigned to it
  (the response interceptor assigns one to array bodies). An object is the list of its
  properties; a lookup takes the first entry of a key.
\<close>

datatype jsnum = NaN | PosInf | NegInf | Fin rat

datatype jsval =
    Undefined
  | Null
  | Bool bool
  | Num jsnum
  | Str string
  | Arr "jsval list" "(string \<times> jsval) list"
  | Obj "(string \<times> jsval) list"

datatype js_error =
    TypeError
  | AxiosError string

text \<open>\<^verbatim>\<open>if (v)\<close>, \<^verbatim>\<open>v && ...\<close>, \<^verbatim>\<open>v || ...\<close>, \<^verbatim>\<open>!v\<close>: the ToBoolean conversion.\<close>

fun truthy :: "jsval \<Rightarrow> bool" where
  "truthy Undefined = False"
| "truthy Null = False"
| "truthy (Bool b) = b"
| "truthy (Num n) = (n \<noteq> NaN \<and> n \<noteq> Fin 0)"
| "truthy (Str s) = (s \<noteq> [])"
| "truthy (Arr xs ps) = True"
| "truthy (Obj ps) = True"

text \<open>\<^verbatim>\<open>a || b\<close>\<close>

definition js_or :: "jsval \<Rightarrow> jsval \<Rightarrow> jsval" where
  "js_or a b = (if truthy a then a else b)"

text \<open>The decimal spelling of an array index, the property key \<^verbatim>\<open>v[i]\<close> reads.\<close>

definition digit_char :: "nat \<Rightarrow> char" where
  "digit_char d = char_of (48 + d)"

fun index_key :: "nat \<Rightarrow> string" where
  "index_key n = (if n < 10 then [digit_char n] else index_key (n div 10) @ [digit_char (n mod 10)])"

declare index_key.simps [simp del]

fun lookup :: "(string \<times> jsval) list \<Rightarrow> string \<Rightarrow> jsval" where
  "lookup [] k = Undefined"
| "lookup ((k', v) # ps) k = (if k' = k then v else lookup ps k)"

text \<open>
  \<^verbatim>\<open>v.name\<close> for a name that is neither an index nor \<^verbatim>\<open>length\<close> (the code reads
  \<^verbatim>\<open>period\<close>, \<^verbatim>\<open>revenue\<close>, \<^verbatim>\<open>books_sold\<close>, \<^verbatim>\<open>num_sales\<close>, \<^verbatim>\<open>processing_info\<close>). Reading a
  property of \<^verbatim>\<open>undefined\<close> or \<^verbatim>\<open>null\<close> throws; a primitive has none of these names.
\<close>

fun get_prop :: "jsval \<Rightarrow> string \<Rightarrow> js_error + jsval" where
  "get_prop Undefined k = Inl TypeError"
| "get_prop Null k = Inl TypeError"
| "get_prop (Obj ps) k = Inr (lookup ps k)"
| "get_prop (Arr xs ps) k = Inr (lookup ps k)"
| "get_prop v k = Inr Undefined"

text \<open>
  \<^verbatim>\<open>v?.[i]\<close>: \<^verbatim>\<open>undefined\<close> when \<^verbatim>\<open>v\<close> is \<^verbatim>\<open>undefined\<close> or \<^verbatim>\<open>null\<close>, else the
  element at index \<^verbatim>\<open>i\<close>: of an array its i-th element, of a string its i-th character,
  of an object the property spelled like the index.
\<close>

fun opt_index :: "jsval \<Rightarrow> nat \<Rightarrow> jsval" where
  "opt_index (Arr xs ps) i = (if i < length xs then xs ! i else Undefined)"
| "opt_index (Str s) i = (if i < length s then Str [s ! i] else Undefined)"
| "opt_index (Obj ps) i = lookup ps (index_key i)"
| "opt_index v i = Undefined"

text \<open>
  \<^verbatim>\<open>v.name = x\<close> in a module (strict mode): objects and arrays take the property;
  assigning to a primitive throws, as does assigning to \<^verbatim>\<open>undefined\<close> or \<^verbatim>\<open>null\<close>.
\<close>

fun assign :: "(string \<times> jsval) list \<Rightarrow> string \<Rightarrow> jsval \<Rightarrow> (string \<times> jsval) list" where
  "assign [] k x = [(k, x)]"
| "assign ((k', v) # ps) k x = (if k' = k then (k, x) # ps else (k', v) # assign ps k x)"

fun set_prop :: "jsval \<Rightarrow> string \<Rightarrow> jsval \<Rightarrow> js_error + jsval" where
  "set_prop (Obj ps) k x = Inr (Obj (assign ps k x))"
| "set_prop (Arr xs ps) k x = Inr (Arr xs (assign ps k x))"
| "set_prop v k x = Inl TypeError"

text \<open>\<^verbatim>\<open>delete v.name\<close> on an object or array.\<close>

fun delete_prop :: "jsval \<Rightarrow> string \<Rightarrow> jsval" where
  "delete_prop (Obj ps) k = Obj (filter (\<lambda>p. fst p \<noteq> k) ps)"
| "delete_prop (Arr xs ps) k = Arr xs (filter (\<lambda>p. fst p \<noteq> k) ps)"
| "delete_prop v k = v"

section \<open>The axios instances of the two services\<close>

datatype http_method = GET | POST

record config =
  \<comment> \<open>\<^verbatim>\<open>config.method\<close>\<close>
  http_verb :: http_method
  baseURL :: string
  url :: string
  headers :: "(string \<times> string) list"
  params :: "(string \<times> jsval) list"
  body :: jsval
  timeout :: "nat option"
  metadata :: "int option"

record response =
  data :: jsval
  status :: nat
  req_config :: config

text \<open>\<^verbatim>\<open>config.headers.Authorization = ...\<close>\<close>

fun set_header :: "(string \<times> string) list \<Rightarrow> string \<Rightarrow> string \<Rightarrow> (string \<times> string) list" where
  "set_header [] k x = [(k, x)]"
| "set_header ((k', v) # hs) k x = (if k' = k then (k, x) # hs else (k', v) # set_header hs k x)"

text \<open>
  The first request interceptor of both services. \<^verbatim>\<open>localStorage.getItem\<close> gives
  \<^verbatim>\<open>null\<close> for a key that is not stored, and the stored string otherwise;
  \<^verbatim>\<open>if (token)\<close> is false for \<^verbatim>\<open>null\<close> and for the empty string.
\<close>

definition auth_interceptor :: "(string \<rightharpoonup> string) \<Rightarrow> config \<Rightarrow> config" where
  "auth_interceptor localStorage cfg =
     (case localStorage ''authToken'' of
        None \<Rightarrow> cfg
      | Some token \<Rightarrow>
          if token \<noteq> [] then cfg\<lparr>headers := set_header (headers cfg) ''Authorization'' (''Bearer '' @ token)\<rparr>
          else cfg)"

text \<open>The configuration \<^verbatim>\<open>axios.create\<close> is given, for a request of a method to a path.\<close>

definition optimized_base :: "http_method \<Rightarrow> string \<Rightarrow> (string \<times> jsval) list \<Rightarrow> jsval \<Rightarrow> config" where
  "optimized_base m path ps b =
     \<lparr>http_verb = m, baseURL = ''/api'', url = path,
      headers = [(''Content-Type'', ''application/json'')],
      params = ps, body = b, timeout = Some 60000, metadata = None\<rparr>"

definition plain_base :: "http_method \<Rightarrow> string \<Rightarrow> (string \<times> jsval) list \<Rightarrow> jsval \<Rightarrow> config" where
  "plain_base m path ps b =
     \<lparr>http_verb = m, baseURL = ''/api'', url = path,
      headers = [(''Content-Type'', ''application/json'')],
      params = ps, body = b, timeout = None, metadata = None\<rparr>"

text \<open>
  What the page's environment supplies: the browser's \<^verbatim>\<open>localStorage\<close>, the server behind
  the HTTP adapter (a network failure, or a status code with a parsed body) and the clock
  that \<^verbatim>\<open>new Date()\<close> reads, as the sequence of its readings in milliseconds.
\<close>

record env =
  localStorage :: "string \<rightharpoonup> string"
  server :: "config \<Rightarrow> js_error + (nat \<times> jsval)"
  clock :: "nat \<Rightarrow> int"

text \<open>
  What the code changes outside the page's own state: the requests handed to the adapter,
  the lines written by \<^verbatim>\<open>console.error\<close> (a message and the errors printed after it) and the number of clock readings made.
\<close>

record world =
  sent :: "config list"
  console :: "(string \<times> js_error list) list"
  ticks :: nat

definition world0 :: world where
  "world0 = \<lparr>sent = [], console = [], ticks = 0\<rparr>"

text \<open>
  The adapter: the promise rejects on a network failure and on a status outside 2xx
  (axios's default \<^verbatim>\<open>validateStatus\<close>); a response carries the configuration it answers.
\<close>

definition dispatch :: "(config \<Rightarrow> js_error + (nat \<times> jsval)) \<Rightarrow> config \<Rightarrow> js_error + response" where
  "dispatch srv cfg =
     (case srv cfg of
        Inl e \<Rightarrow> Inl e
      | Inr (st, d) \<Rightarrow>
          if 200 \<le> st \<and> st < 300 then Inr \<lparr>data = d, status = st, req_config = cfg\<rparr>
          else Inl (AxiosError ''Request failed with status code''))"

text \<open>The second request interceptor of the optimized service: \<^verbatim>\<open>config.metadata = { startTime: new Date() }\<close>.\<close>

definition timing_request :: "int \<Rightarrow> config \<Rightarrow> config" where
  "timing_request startTime cfg = cfg\<lparr>metadata := Some startTime\<rparr>"

text \<open>
  The response interceptor of the optimized service, given the reading of \<^verbatim>\<open>new Date()\<close>
  it makes. \<^verbatim>\<open>response.config.metadata.startTime\<close> throws when no metadata was set.
\<close>

definition processing_info_of :: "int \<Rightarrow> jsval" where
  "processing_info_of elapsedTimeMs =
     Obj [(''processing_time_ms'', Num (Fin (of_int elapsedTimeMs))), (''cached'', Bool False)]"

definition timing_response :: "int \<Rightarrow> response \<Rightarrow> js_error + response" where
  "timing_response endTime resp =
     (case metadata (req_config resp) of
        None \<Rightarrow> Inl TypeError
      | Some startTime \<Rightarrow>
          (let elapsedTimeMs = endTime - startTime in
           if truthy (data resp) then
             (case get_prop (data resp) ''processing_info'' of
                Inl e \<Rightarrow> Inl e
              | Inr info \<Rightarrow>
                  if \<not> truthy info then
                    (case set_prop (data resp) ''processing_info'' (processing_info_of elapsedTimeMs) of
                       Inl e \<Rightarrow> Inl e
                     | Inr d \<Rightarrow> Inr (resp\<lparr>data := d\<rparr>))
                  else Inr resp)
           else Inr resp))"

text \<open>
  A request through the optimized instance. Axios runs request interceptors last
  registered first: the timing interceptor, then the authorization interceptor; then the
  adapter; then the response interceptor.
\<close>

definition optimized_request :: "env \<Rightarrow> config \<Rightarrow> world \<Rightarrow> (js_error + response) \<times> world" where
  "optimized_request e cfg w =
     (let cfg1 = timing_request (clock e (ticks w)) cfg;
          w1 = w\<lparr>ticks := ticks w + 1\<rparr>;
          cfg2 = auth_interceptor (localStorage e) cfg1;
          w2 = w1\<lparr>sent := sent w1 @ [cfg2]\<rparr>
      in case dispatch (server e) cfg2 of
           Inl err \<Rightarrow> (Inl err, w2)
         | Inr resp \<Rightarrow> (timing_response (clock e (ticks w2)) resp, w2\<lparr>ticks := ticks w2 + 1\<rparr>))"

text \<open>A request through the plain instance: the authorization interceptor, then the adapter.\<close>

definition plain_request :: "env \<Rightarrow> config \<Rightarrow> world \<Rightarrow> (js_error + response) \<times> world" where
  "plain_request e cfg w =
     (let cfg1 = auth_interceptor (localStorage e) cfg;
          w1 = w\<lparr>sent := sent w @ [cfg1]\<rparr>
      in (dispatch (server e) cfg1, w1))"

section \<open>The two services\<close>

text \<open>
  Every operation of both services is
  \<^verbatim>\<open>try { const response = await analyticsApi.get(...); return response.data; }
  catch (error) { console.error(msg, error); throw error; }\<close>
  and differs in the request and the message only.
\<close>

definition try_catch :: "string \<Rightarrow> (js_error + response) \<times> world \<Rightarrow> (js_error + jsval) \<times> world" where
  "try_catch msg r =
     (case r of
        (Inr resp, w) \<Rightarrow> (Inr (data resp), w)
      | (Inl err, w) \<Rightarrow> (Inl err, w\<lparr>console := console w @ [(msg, [err])]\<rparr>))"

text \<open>A default parameter value applies when the argument is \<^verbatim>\<open>undefined\<close>.\<close>

definition dflt :: "jsval \<Rightarrow> jsval \<Rightarrow> jsval" where
  "dflt arg d = (if arg = Undefined then d else arg)"

definition num :: "int \<Rightarrow> jsval" where
  "num n = Num (Fin (of_int n))"

subsection \<open>optimizedAnalyticsService\<close>

definition opt_getDashboardSummary :: "env \<Rightarrow> world \<Rightarrow> (js_error + jsval) \<times> world" where
  "opt_getDashboardSummary e w =
     try_catch ''Error fetching dashboard summary:''
       (optimized_request e (optimized_base GET ''/analytics/summary/'' [] Undefined) w)"

definition opt_getSalesTimeSeries :: "env \<Rightarrow> jsval \<Rightarrow> jsval \<Rightarrow> world \<Rightarrow> (js_error + jsval) \<times> world" where
  "opt_getSalesTimeSeries e interval days w =
     try_catch ''Error fetching sales time series:''
       (optimized_request e
          (optimized_base GET ''/analytics/optimized-timeseries/''
             [(''interval'', dflt interval (Str ''auto'')), (''days'', dflt days (num 30))] Undefined) w)"

definition opt_getTopBooks :: "env \<Rightarrow> jsval \<Rightarrow> jsval \<Rightarrow> world \<Rightarrow> (js_error + jsval) \<times> world" where
  "opt_getTopBooks e limit days w =
     try_catch ''Error fetching top books:''
       (optimized_request e
          (optimized_base GET ''/analytics/top-books/''
             [(''limit'', dflt limit (num 10)), (''days'', dflt days (num 30))] Undefined) w)"

definition opt_getSalesByRegion :: "env \<Rightarrow> jsval \<Rightarrow> world \<Rightarrow> (js_error + jsval) \<times> world" where
  "opt_getSalesByRegion e days w =
     try_catch ''Error fetching sales by region:''
       (optimized_request e
          (optimized_base GET ''/analytics/sales-by-region/'' [(''days'', dflt days (num 30))] Undefined) w)"

definition opt_getSalesByGenre :: "env \<Rightarrow> jsval \<Rightarrow> world \<Rightarrow> (js_error + jsval) \<times> world" where
  "opt_getSalesByGenre e days w =
     try_catch ''Error fetching sales by genre:''
       (optimized_request e
          (optimized_base GET ''/analytics/sales-by-genre/'' [(''days'', dflt days (num 30))] Undefined) w)"

definition test_data_body :: "jsval \<Rightarrow> jsval \<Rightarrow> jsval \<Rightarrow> jsval" where
  "test_data_body numBooks numSales skipRedshift =
     Obj [(''num_books'', dflt numBooks (num 500)),
          (''num_sales'', dflt numSales (num 10000)),
          (''skip_redshift'', dflt skipRedshift (Bool False))]"

definition opt_generateTestData :: "env \<Rightarrow> jsval \<Rightarrow> jsval \<Rightarrow> jsval \<Rightarrow> world \<Rightarrow> (js_error + jsval) \<times> world" where
  "opt_generateTestData e numBooks numSales skipRedshift w =
     try_catch ''Error generating test data:''
       (optimized_request e
          (optimized_base POST ''/analytics/generate-test-data/'' []
             (test_data_body numBooks numSales skipRedshift)) w)"

subsection \<open>analyticsService\<close>

definition getDashboardSummary :: "env \<Rightarrow> world \<Rightarrow> (js_error + jsval) \<times> world" where
  "getDashboardSummary e w =
     try_catch ''Error fetching dashboard summary:''
       (plain_request e (plain_base GET ''/analytics/summary/'' [] Undefined) w)"

definition getSalesTimeSeries :: "env \<Rightarrow> jsval \<Rightarrow> jsval \<Rightarrow> world \<Rightarrow> (js_error + jsval) \<times> world" where
  "getSalesTimeSeries e interval days w =
     try_catch ''Error fetching sales time series:''
       (plain_request e
          (plain_base GET ''/analytics/timeseries/''
             [(''interval'', dflt interval (Str ''day'')), (''days'', dflt days (num 30))] Undefined) w)"

definition getTopBooks :: "env \<Rightarrow> jsval \<Rightarrow> jsval \<Rightarrow> world \<Rightarrow> (js_error + jsval) \<times> world" where
  "getTopBooks e limit days w =
     try_catch ''Error fetching top books:''
       (plain_request e
          (plain_base GET ''/analytics/top-books/''
             [(''limit'', dflt limit (num 10)), (''days'', dflt days (num 30))] Undefined) w)"

definition getSalesByRegion :: "env \<Rightarrow> jsval \<Rightarrow> world \<Rightarrow> (js_error + jsval) \<times> world" where
  "getSalesByRegion e days w =
     try_catch ''Error fetching sales by region:''
       (plain_request e
          (plain_base GET ''/analytics/sales-by-region/'' [(''days'', dflt days (num 30))] Undefined) w)"

definition getSalesByGenre :: "env \<Rightarrow> jsval \<Rightarrow> world \<Rightarrow> (js_error + jsval) \<times> world" where
  "getSalesByGenre e days w =
     try_catch ''Error fetching sales by genre:''
       (plain_request e
          (plain_base GET ''/analytics/sales-by-genre/'' [(''days'', dflt days (num 30))] Undefined) w)"

definition generateTestData :: "env \<Rightarrow> jsval \<Rightarrow> jsval \<Rightarrow> jsval \<Rightarrow> world \<Rightarrow> (js_error + jsval) \<times> world" where
  "generateTestData e numBooks numSales skipRedshift w =
     try_catch ''Error generating test data:''
       (plain_request e
          (plain_base POST ''/analytics/generate-test-data/'' []
             (test_data_body numBooks numSales skipRedshift)) w)"

subsection \<open>The exported objects\<close>

text \<open>A call of one of the operations either service exports, with its arguments.\<close>

datatype call =
    DashboardSummary
  | SalesTimeSeries jsval jsval
  | TopBooks jsval jsval
  | SalesByRegion jsval
  | SalesByGenre jsval
  | GenerateTestData jsval jsval jsval

fun optimizedAnalyticsService :: "env \<Rightarrow> call \<Rightarrow> world \<Rightarrow> (js_error + jsval) \<times> world" where
  "optimizedAnalyticsService e DashboardSummary w = opt_getDashboardSummary e w"
| "optimizedAnalyticsService e (SalesTimeSeries interval days) w = opt_getSalesTimeSeries e interval days w"
| "optimizedAnalyticsService e (TopBooks limit days) w = opt_getTopBooks e limit days w"
| "optimizedAnalyticsService e (SalesByRegion days) w = opt_getSalesByRegion e days w"
| "optimizedAnalyticsService e (SalesByGenre days) w = opt_getSalesByGenre e days w"
| "optimizedAnalyticsService e (GenerateTestData numBooks numSales skipRedshift) w =
     opt_generateTestData e numBooks numSales skipRedshift w"

fun analyticsService :: "env \<Rightarrow> call \<Rightarrow> world \<Rightarrow> (js_error + jsval) \<times> world" where
  "analyticsService e DashboardSummary w = getDashboardSummary e w"
| "analyticsService e (SalesTimeSeries interval days) w = getSalesTimeSeries e interval days w"
| "analyticsService e (TopBooks limit days) w = getTopBooks e limit days w"
| "analyticsService e (SalesByRegion days) w = getSalesByRegion e days w"
| "analyticsService e (SalesByGenre days) w = getSalesByGenre e days w"
| "analyticsService e (GenerateTestData numBooks numSales skipRedshift) w =
     generateTestData e numBooks numSales skipRedshift w"


definition is_object :: "jsval \<Rightarrow> bool" where
  "is_object v = (case v of Obj ps \<Rightarrow> True | Arr xs ps \<Rightarrow> True | _ \<Rightarrow> False)"

text \<open>The request a call has put on the wire: method, full path and query parameters.\<close>

definition wire :: "config \<Rightarrow> http_method \<times> string \<times> (string \<times> jsval) list" where
  "wire c = (http_verb c, baseURL c @ url c, params c)"

section \<open>The time range selectors\<close>



definition intervals :: "(string \<times> string) list" where
  "intervals =
     [(''auto'', ''Auto''), (''day'', ''Daily''), (''week'', ''Weekly''),
      (''month'', ''Monthly''), (''quarter'', ''Quarterly''), (''year'', ''Yearly'')]"

text \<open>
  The user picks the i-th option of a \<^verbatim>\<open>select\<close>; the handler passes
  \<^verbatim>\<open>Number(e.target.value)\<close>, the value of that option, to \<^verbatim>\<open>onChange\<close>. Only a
  rendered option can be picked.
\<close>

definition picked :: "('a \<times> string) list \<Rightarrow> nat \<Rightarrow> 'a option" where
  "picked options i = (if i < length options then Some (fst (options ! i)) else None)"

section \<open>The dashboard pages\<close>

subsection \<open>Normalization of the time series\<close>

record point =
  date :: jsval
  revenue :: jsval
  books :: jsval
  sales :: jsval

text \<open>\<^verbatim>\<open>timeSeries.name?.[index] || 0\<close>\<close>

definition series_at :: "jsval \<Rightarrow> string \<Rightarrow> nat \<Rightarrow> js_error + jsval" where
  "series_at timeSeries name i =
     (case get_prop timeSeries name of
        Inl e \<Rightarrow> Inl e
      | Inr column \<Rightarrow> Inr (js_or (opt_index column i) (num 0)))"

text \<open>The callback of \<^verbatim>\<open>timeSeries.period.map((date, index) => ...)\<close>.\<close>

definition format_point :: "jsval \<Rightarrow> jsval \<Rightarrow> nat \<Rightarrow> js_error + point" where
  "format_point timeSeries d i =
     (case series_at timeSeries ''revenue'' i of
        Inl e \<Rightarrow> Inl e
      | Inr r \<Rightarrow>
          (case series_at timeSeries ''books_sold'' i of
             Inl e \<Rightarrow> Inl e
           | Inr b \<Rightarrow>
               (case series_at timeSeries ''num_sales'' i of
                  Inl e \<Rightarrow> Inl e
                | Inr s \<Rightarrow> Inr \<lparr>date = d, revenue = r, books = b, sales = s\<rparr>)))"

fun map_from :: "jsval \<Rightarrow> nat \<Rightarrow> jsval list \<Rightarrow> js_error + point list" where
  "map_from timeSeries i [] = Inr []"
| "map_from timeSeries i (d # ds) =
     (case format_point timeSeries d i of
        Inl e \<Rightarrow> Inl e
      | Inr p \<Rightarrow>
          (case map_from timeSeries (Suc i) ds of
             Inl e \<Rightarrow> Inl e
           | Inr ps \<Rightarrow> Inr (p # ps)))"

text \<open>
  The block \<^verbatim>\<open>if (timeSeries && timeSeries.period) { ... } else { setTimeSeriesData([]) }\<close>
  of both pages: the value given to \<^verbatim>\<open>setTimeSeriesData\<close>, or the error thrown. A truthy
  \<^verbatim>\<open>period\<close> that is no array has no \<^verbatim>\<open>map\<close> to call.
\<close>

definition formattedTimeSeries :: "jsval \<Rightarrow> js_error + point list" where
  "formattedTimeSeries timeSeries =
     (if truthy timeSeries then
        (case get_prop timeSeries ''period'' of
           Inl e \<Rightarrow> Inl e
         | Inr period \<Rightarrow>
             if truthy period then
               (case period of
                  Arr ds ps \<Rightarrow> map_from timeSeries 0 ds
                | _ \<Rightarrow> Inl TypeError)
             else Inr [])
      else Inr [])"






text \<open>\<^verbatim>\<open>(v || []).slice(0, 5)\<close>: arrays and strings have \<^verbatim>\<open>slice\<close>.\<close>

definition slice5 :: "jsval \<Rightarrow> js_error + jsval" where
  "slice5 v =
     (case js_or v (Arr [] []) of
        Arr xs ps \<Rightarrow> Inr (Arr (take 5 xs) [])
      | Str s \<Rightarrow> Inr (Str (take 5 s))
      | _ \<Rightarrow> Inl TypeError)"

subsection \<open>Dashboard.jsx\<close>

record dashboard =
  timeRange :: int
  loading :: bool
  error :: "string option"
  summary :: jsval
  timeSeriesData :: "point list"
  topBooks :: jsval
  genreData :: jsval


text \<open>
  \<^verbatim>\<open>fetchData\<close>. The four calls inside \<^verbatim>\<open>Promise.allSettled([...])\<close> are made in
  order before any result is looked at; each touches its own response only. Then the
  results are processed. A state setter that ran before a throw keeps its effect; what
  the processing throws is caught by the outer \<^verbatim>\<open>catch\<close>.
\<close>

definition use_summary :: "(js_error + jsval) \<Rightarrow> dashboard \<Rightarrow> dashboard" where
  "use_summary r0 d = (case r0 of Inr v \<Rightarrow> d\<lparr>summary := v\<rparr> | Inl e \<Rightarrow> d)"










subsection \<open>DashboardOptimized.jsx\<close>

record optimized_dashboard =
  o_timeRange :: int
  o_intervalMode :: string
  o_loading :: bool
  o_error :: "string option"
  o_summary :: jsval
  o_timeSeriesData :: "point list"
  o_topBooks :: jsval
  o_genreData :: jsval
  o_processingInfo :: jsval

definition optimized_dashboard0 :: optimized_dashboard where
  "optimized_dashboard0 =
     \<lparr>o_timeRange = 30, o_intervalMode = ''auto'', o_loading = True, o_error = None,
      o_summary = Null, o_timeSeriesData = [], o_topBooks = Arr [] [], o_genreData = Arr [] [],
      o_processingInfo = Null\<rparr>"

text \<open>The \<^verbatim>\<open>catch\<close> and \<^verbatim>\<open>finally\<close> blocks of the optimized \<^verbatim>\<open>fetchData\<close>.\<close>

definition caught :: "js_error \<Rightarrow> optimized_dashboard \<Rightarrow> world \<Rightarrow> optimized_dashboard \<times> world" where
  "caught err d w =
     (d\<lparr>o_error := Some ''Failed to fetch dashboard data. Please try again later.'', o_loading := False\<rparr>,
      w\<lparr>console := console w @ [(''Error fetching dashboard data:'', [err])]\<rparr>)"

text \<open>
  The \<^verbatim>\<open>then\<close> handler of the two low priority requests: it is not awaited; what it
  throws is dropped with the state as it stands.
\<close>

definition remaining :: "(js_error + jsval) \<Rightarrow> (js_error + jsval) \<Rightarrow> optimized_dashboard \<Rightarrow> optimized_dashboard" where
  "remaining r0 r1 d =
     (let d0 = (case r0 of Inr v \<Rightarrow> d\<lparr>o_topBooks := js_or v (Arr [] [])\<rparr> | Inl e \<Rightarrow> d)
      in case r1 of
           Inr v \<Rightarrow> (case slice5 v of Inl e \<Rightarrow> d0 | Inr g \<Rightarrow> d0\<lparr>o_genreData := g\<rparr>)
         | Inl e \<Rightarrow> d0)"

definition opt_fetchData :: "env \<Rightarrow> optimized_dashboard \<Rightarrow> world \<Rightarrow> optimized_dashboard \<times> world" where
  "opt_fetchData e d w =
     (let d1 = d\<lparr>o_loading := True\<rparr>;
          (r0, w0) = opt_getDashboardSummary e w
      in case r0 of
           Inl err \<Rightarrow> caught err d1 w0
         | Inr summaryData \<Rightarrow>
             (let d2 = d1\<lparr>o_summary := summaryData\<rparr>;
                  (r1, w1) = opt_getSalesTimeSeries e (Str (o_intervalMode d2)) (num (o_timeRange d2)) w0
              in case r1 of
                   Inl err \<Rightarrow> caught err d2 w1
                 | Inr timeSeries \<Rightarrow>
                     (case get_prop timeSeries ''processing_info'' of
                        Inl err \<Rightarrow> caught err d2 w1
                      | Inr info \<Rightarrow>
                          (let (d3, timeSeries') =
                                 (if truthy info
                                  then (d2\<lparr>o_processingInfo := info\<rparr>, delete_prop timeSeries ''processing_info'')
                                  else (d2, timeSeries))
                           in case formattedTimeSeries timeSeries' of
                                Inl err \<Rightarrow> caught err d3 w1
                              | Inr ps \<Rightarrow>
                                  (let d4 = d3\<lparr>o_timeSeriesData := ps\<rparr>;
                                       (r2, w2) = opt_getTopBooks e (num 5) (num (o_timeRange d4)) w1;
                                       (r3, w3) = opt_getSalesByGenre e (num (o_timeRange d4)) w2
                                   in (remaining r2 r3 (d4\<lparr>o_error := None, o_loading := False\<rparr>), w3))))))"

text \<open>\<^verbatim>\<open>useEffect(..., [timeRange, intervalMode])\<close>\<close>

definition opt_mount :: "env \<Rightarrow> world \<Rightarrow> optimized_dashboard \<times> world" where
  "opt_mount e w = opt_fetchData e optimized_dashboard0 w"


definition opt_setIntervalMode ::
  "env \<Rightarrow> string \<Rightarrow> optimized_dashboard \<times> world \<Rightarrow> optimized_dashboard \<times> world" where
  "opt_setIntervalMode e v st =
     (let (d, w) = st in if v = o_intervalMode d then (d, w) else opt_fetchData e (d\<lparr>o_intervalMode := v\<rparr>) w)"


definition opt_select_interval ::
  "env \<Rightarrow> nat \<Rightarrow> optimized_dashboard \<times> world \<Rightarrow> optimized_dashboard \<times> world" where
  "opt_select_interval e i st =
     (case picked intervals i of None \<Rightarrow> st | Some v \<Rightarrow> opt_setIntervalMode e v st)"

subsection \<open>Divisions over fetched data\<close>

text \<open>
  What the JavaScript runtime supplies to the arithmetic of the pages: the number a
  string spells, the number an array or object converts to, IEEE division and
  \<^verbatim>\<open>Math.ceil\<close> on doubles, and the \<^verbatim>\<open>+\<close> operator (a sum of numbers, or a
  concatenation when an operand is a string).
\<close>

record runtime =
  parse_number :: "string \<Rightarrow> jsnum"
  object_number :: "jsval \<Rightarrow> jsnum"
  number_div :: "jsnum \<Rightarrow> jsnum \<Rightarrow> jsnum"
  math_ceil :: "jsnum \<Rightarrow> jsnum"
  js_plus :: "jsval \<Rightarrow> jsval \<Rightarrow> jsval"

text \<open>ToNumber, applied by \<^verbatim>\<open>></\<close> against a number and by \<^verbatim>\<open>/\<close>.\<close>

fun to_number :: "runtime \<Rightarrow> jsval \<Rightarrow> jsnum" where
  "to_number rt Undefined = NaN"
| "to_number rt Null = Fin 0"
| "to_number rt (Bool b) = Fin (if b then 1 else 0)"
| "to_number rt (Num n) = n"
| "to_number rt (Str s) = parse_number rt s"
| "to_number rt v = object_number rt v"

text \<open>\<^verbatim>\<open>n > 0\<close> on doubles: false for NaN; both zeros are \<open>Fin 0\<close>.\<close>

fun gt_zero :: "jsnum \<Rightarrow> bool" where
  "gt_zero (Fin r) = (0 < r)"
| "gt_zero PosInf = True"
| "gt_zero n = False"

text \<open>
  A division, with the event the pages must not reach made a result of its own:
  JavaScript itself answers a zero divisor with an infinity or NaN.
\<close>

datatype quotient = Value jsnum | Throws js_error | ZeroDivisor

definition js_divide :: "runtime \<Rightarrow> jsval \<Rightarrow> jsval \<Rightarrow> quotient" where
  "js_divide rt a b =
     (if to_number rt b = Fin 0 then ZeroDivisor
      else Value (number_div rt (to_number rt a) (to_number rt b)))"

text \<open>
  \<^verbatim>\<open>row.books_sold > 0 ? row.revenue / row.books_sold : 0\<close>, the last cell of a row of
  the details tables of SalesByGenre and of SalesByRegion.
\<close>

definition avg_revenue_per_book :: "runtime \<Rightarrow> jsval \<Rightarrow> quotient" where
  "avg_revenue_per_book rt row =
     (case get_prop row ''books_sold'' of
        Inl e \<Rightarrow> Throws e
      | Inr books_sold \<Rightarrow>
          if gt_zero (to_number rt books_sold) then
            (case get_prop row ''revenue'' of
               Inl e \<Rightarrow> Throws e
             | Inr r \<Rightarrow> js_divide rt r books_sold)
          else Value (Fin 0))"

text \<open>\<^verbatim>\<open>!loading && genreData.map(...)\<close>: the cells of the column, row by row.\<close>

definition details_column :: "runtime \<Rightarrow> bool \<Rightarrow> jsval \<Rightarrow> quotient list" where
  "details_column rt is_loading rows =
     (if \<not> is_loading then
        (case rows of
           Arr xs ps \<Rightarrow> map (avg_revenue_per_book rt) xs
         | _ \<Rightarrow> [Throws TypeError])
      else [])"

text \<open>
  The \<^verbatim>\<open>y\<close> of the reference line of the optimized dashboard, inside
  \<^verbatim>\<open>timeSeriesData.length > 0 ? ... : ...\<close> and again behind
  \<^verbatim>\<open>timeSeriesData.length > 0 &&\<close>; \<open>None\<close> when no line is drawn.
\<close>

definition reference_line :: "runtime \<Rightarrow> point list \<Rightarrow> quotient option" where
  "reference_line rt series =
     (if length series > 0 then
        (if length series > 0 then
           Some (js_divide rt
                   (foldl (\<lambda>acc item. js_plus rt acc (revenue item)) (num 0) series)
                   (num (int (length series))))
         else None)
      else None)"

text \<open>\<^verbatim>\<open>timeSeriesData.length > 60 ? Math.ceil(timeSeriesData.length / 12) : 0\<close>\<close>

definition tick_interval :: "runtime \<Rightarrow> point list \<Rightarrow> quotient" where
  "tick_interval rt series =
     (if length series > 60 then
        (case js_divide rt (num (int (length series))) (num 12) of
           Value q \<Rightarrow> Value (math_ceil rt q)
         | other \<Rightarrow> other)
      else Value (Fin 0))"

section \<open>The warehouse: tables and aggregate views\<close>

text \<open>
  The schema of \<^verbatim>\<open>setup_analytics_data.sh\<close>. A column is nullable unless it is the
  primary key; amounts are \<^verbatim>\<open>DECIMAL(10, 2)\<close>, held in cents. A \<^verbatim>\<open>DATE\<close> is year, month
  and day; a \<^verbatim>\<open>TIMESTAMP\<close> adds the time of day. Sums are taken over unbounded
  integers: Redshift raises an error where a sum leaves its type, it never wraps.
\<close>

type_synonym sql_date = "int \<times> nat \<times> nat"

record sql_timestamp =
  ts_year :: int
  ts_month :: nat
  ts_day :: nat
  ts_hour :: nat
  ts_minute :: nat
  ts_second :: nat

record dim_book_row =
  book_id :: int
  title :: "string option"
  author :: "string option"
  isbn :: "string option"
  published_date :: "sql_date option"
  publisher :: "string option"
  genre :: "string option"
  price :: "int option"

record fact_sales_row =
  sale_id :: int
  \<comment> \<open>the column \<^verbatim>\<open>book_id\<close> of \<^verbatim>\<open>fact_sales\<close>\<close>
  sale_book_id :: "int option"
  quantity :: "int option"
  sale_date :: "sql_timestamp option"
  customer_id :: "string option"
  region :: "string option"
  sale_amount :: "int option"






















subsection \<open>The aggregates as the specification words them\<close>






section \<open>The script setup_analytics_data.sh\<close>

record options =
  S3_BUCKET :: string
  REDSHIFT_HOST :: string
  REDSHIFT_DB :: string
  REDSHIFT_USER :: string
  REDSHIFT_PASSWORD :: string
  IAM_ROLE :: string
  SKIP_GENERATE :: bool
  SKIP_UPLOAD :: bool
  SKIP_REDSHIFT :: bool

text \<open>The default values, with the two positional arguments.\<close>

definition default_options :: "string \<Rightarrow> string \<Rightarrow> options" where
  "default_options bucket host =
     \<lparr>S3_BUCKET = bucket, REDSHIFT_HOST = host, REDSHIFT_DB = ''analytics'', REDSHIFT_USER = ''admin'',
      REDSHIFT_PASSWORD = [], IAM_ROLE = [],
      SKIP_GENERATE = False, SKIP_UPLOAD = False, SKIP_REDSHIFT = False\<rparr>"

text \<open>
  The loop \<^verbatim>\<open>while [ "$#" -gt 0 ]; do case "$1" in ... esac; done\<close>. An option that takes a
  value and stands last reads the empty string; its \<^verbatim>\<open>shift 2\<close> then fails and shifts
  nothing (bash), so the loop meets the same argument again, forever.
\<close>

datatype parsed = Parsed options | Unknown_option | Loops_forever

fun parse_options :: "string list \<Rightarrow> options \<Rightarrow> parsed" where
  "parse_options [] opts = Parsed opts"
| "parse_options [x] opts =
     (if x = ''--database'' \<or> x = ''--user'' \<or> x = ''--password'' \<or> x = ''--iam-role'' then Loops_forever
      else if x = ''--skip-generate'' then Parsed (opts\<lparr>SKIP_GENERATE := True\<rparr>)
      else if x = ''--skip-upload'' then Parsed (opts\<lparr>SKIP_UPLOAD := True\<rparr>)
      else if x = ''--skip-redshift'' then Parsed (opts\<lparr>SKIP_REDSHIFT := True\<rparr>)
      else Unknown_option)"
| "parse_options (x # v # rest) opts =
     (if x = ''--database'' then parse_options rest (opts\<lparr>REDSHIFT_DB := v\<rparr>)
      else if x = ''--user'' then parse_options rest (opts\<lparr>REDSHIFT_USER := v\<rparr>)
      else if x = ''--password'' then parse_options rest (opts\<lparr>REDSHIFT_PASSWORD := v\<rparr>)
      else if x = ''--iam-role'' then parse_options rest (opts\<lparr>IAM_ROLE := v\<rparr>)
      else if x = ''--skip-generate'' then parse_options (v # rest) (opts\<lparr>SKIP_GENERATE := True\<rparr>)
      else if x = ''--skip-upload'' then parse_options (v # rest) (opts\<lparr>SKIP_UPLOAD := True\<rparr>)
      else if x = ''--skip-redshift'' then parse_options (v # rest) (opts\<lparr>SKIP_REDSHIFT := True\<rparr>)
      else Unknown_option)"

text \<open>
  What lies outside the script, and what the script changes there: the two CSV files
  under \<^verbatim>\<open>data/\<close>, the objects of the bucket (by the date in their key), the two tables
  of the warehouse (\<open>None\<close>: the table does not exist), and the Python programs the
  script has started, in order.
\<close>

datatype phase = Generate | Upload | Create_schema | Load

record site =
  books_csv :: "dim_book_row list option"
  sales_csv :: "fact_sales_row list option"
  s3_books :: "string \<rightharpoonup> dim_book_row list"
  s3_sales :: "string \<rightharpoonup> fact_sales_row list"
  dim_book :: "dim_book_row list option"
  fact_sales :: "fact_sales_row list option"
  started :: "phase list"

text \<open>
  What one run meets: whether \<^verbatim>\<open>python\<close> and \<^verbatim>\<open>pip\<close> are installed, the password
  typed at the prompt, what the generator writes (\<open>None\<close>: it fails before writing), the
  date at upload and at load, and whether each call to S3 and to Redshift succeeds.
\<close>

record outcomes =
  has_python :: bool
  has_pip :: bool
  typed_password :: string
  generated :: "(dim_book_row list \<times> fact_sales_row list) option"
  upload_day :: string
  put_books_ok :: bool
  put_sales_ok :: bool
  schema_ok :: bool
  load_connects :: bool
  load_day :: string
  copy_books_ok :: bool
  copy_sales_ok :: bool

text \<open>The first Python program: it writes both files.\<close>

definition generate :: "outcomes \<Rightarrow> site \<Rightarrow> site" where
  "generate out s =
     (let s1 = s\<lparr>started := started s @ [Generate]\<rparr>
      in case generated out of
           None \<Rightarrow> s1
         | Some (bs, ss) \<Rightarrow> s1\<lparr>books_csv := Some bs, sales_csv := Some ss\<rparr>)"

text \<open>
  The second: each file that exists is put under \<^verbatim>\<open>books/<date>/\<close> or \<^verbatim>\<open>sales/<date>/\<close>;
  \<^verbatim>\<open>upload_to_s3\<close> catches a failure, prints it and returns.
\<close>

definition upload :: "outcomes \<Rightarrow> site \<Rightarrow> site" where
  "upload out s =
     (let s1 = s\<lparr>started := started s @ [Upload]\<rparr>;
          s2 = (case books_csv s1 of
                  Some bs \<Rightarrow> if put_books_ok out then s1\<lparr>s3_books := (s3_books s1)(upload_day out \<mapsto> bs)\<rparr> else s1
                | None \<Rightarrow> s1)
      in case sales_csv s2 of
           Some ss \<Rightarrow> if put_sales_ok out then s2\<lparr>s3_sales := (s3_sales s2)(upload_day out \<mapsto> ss)\<rparr> else s2
         | None \<Rightarrow> s2)"

text \<open>
  The third: it drops both tables and creates them empty, with the views. On a failure
  it prints the error and calls \<^verbatim>\<open>exit(1)\<close>, which ends the Python program; the shell
  script does not look at its status and goes on.
\<close>

definition create_schema :: "outcomes \<Rightarrow> site \<Rightarrow> site" where
  "create_schema out s =
     (let s1 = s\<lparr>started := started s @ [Create_schema]\<rparr>
      in if schema_ok out then s1\<lparr>dim_book := Some [], fact_sales := Some []\<rparr> else s1)"

text \<open>
  The fourth: \<^verbatim>\<open>load_data_to_redshift\<close> for each table. It returns early when the object
  is not in the bucket; \<^verbatim>\<open>COPY\<close> appends the rows of the object to the table, and fails
  on a table that does not exist.
\<close>

definition copy_into :: "bool \<Rightarrow> 'r list option \<Rightarrow> 'r list option \<Rightarrow> 'r list option" where
  "copy_into ok object table =
     (case object of
        None \<Rightarrow> table
      | Some rows \<Rightarrow>
          (case table of
             None \<Rightarrow> None
           | Some old \<Rightarrow> if ok then Some (old @ rows) else Some old))"

definition load :: "outcomes \<Rightarrow> site \<Rightarrow> site" where
  "load out s =
     (let s1 = s\<lparr>started := started s @ [Load]\<rparr>
      in if \<not> load_connects out then s1
         else
           (let s2 = s1\<lparr>dim_book := copy_into (copy_books_ok out) (s3_books s1 (load_day out)) (dim_book s1)\<rparr>
            in s2\<lparr>fact_sales := copy_into (copy_sales_ok out) (s3_sales s2 (load_day out)) (fact_sales s2)\<rparr>))"

text \<open>The prompt for the password, when the warehouse is to be loaded and none was given.\<close>

definition with_password :: "outcomes \<Rightarrow> options \<Rightarrow> options" where
  "with_password out opts =
     (if \<not> SKIP_REDSHIFT opts \<and> REDSHIFT_PASSWORD opts = []
      then opts\<lparr>REDSHIFT_PASSWORD := typed_password out\<rparr> else opts)"

text \<open>
  The three \<^verbatim>\<open>if [ "$SKIP_..." = false ]; then ... fi\<close> blocks, one after the other. The
  script has no \<^verbatim>\<open>set -e\<close> and tests no exit status: a Python program that fails
  does not stop it.
\<close>

definition run_phases :: "options \<Rightarrow> outcomes \<Rightarrow> site \<Rightarrow> site" where
  "run_phases opts out s =
     (let s1 = (if \<not> SKIP_GENERATE opts then generate out s else s);
          s2 = (if \<not> SKIP_UPLOAD opts then upload out s1 else s1)
      in if \<not> SKIP_REDSHIFT opts then load out (create_schema out s2) else s2)"

text \<open>The script, from its arguments: the exit status with the site it leaves, or no end.\<close>

datatype run = Exited nat site | Never_ends

definition setup_analytics_data :: "string list \<Rightarrow> outcomes \<Rightarrow> site \<Rightarrow> run" where
  "setup_analytics_data args out s =
     (if \<not> has_python out \<or> \<not> has_pip out then Exited 1 s
      else if length args < 2 then Exited 1 s
      else
        (case parse_options (drop 2 args) (default_options (args ! 0) (args ! 1)) of
           Loops_forever \<Rightarrow> Never_ends
         | Unknown_option \<Rightarrow> Exited 1 s
         | Parsed opts \<Rightarrow>
             if \<not> SKIP_REDSHIFT (with_password out opts) \<and> IAM_ROLE (with_password out opts) = []
             then Exited 1 s
             else Exited 0 (run_phases (with_password out opts) out s)))"

section \<open>The data generator\<close>

subsection \<open>Python's Decimal\<close>

text \<open>
  A \<^verbatim>\<open>Decimal\<close> is a signed coefficient and an exponent of ten. The default context
  rounds the result of an arithmetic operation to 28 significant digits, half to even;
  \<^verbatim>\<open>round(x, 2)\<close> on a \<^verbatim>\<open>Decimal\<close> quantizes to two places, half to even.
\<close>

record decimal =
  coefficient :: int
  exponent :: int

definition dec_value :: "decimal \<Rightarrow> rat" where
  "dec_value x = of_int (coefficient x) * 10 powi exponent x"




text \<open>The quotient of a magnitude by a positive divisor, rounded half to even.\<close>

definition round_half_even :: "int \<Rightarrow> int \<Rightarrow> int" where
  "round_half_even c m =
     (let q = c div m; r = c mod m
      in if 2 * r < m then q else if m < 2 * r then q + 1 else if even q then q else q + 1)"

text \<open>Dropping the last \<open>k\<close> digits of the coefficient.\<close>

definition rescale :: "nat \<Rightarrow> decimal \<Rightarrow> decimal" where
  "rescale k x =
     \<lparr>coefficient = sgn (coefficient x) * round_half_even \<bar>coefficient x\<bar> (10 ^ k),
      exponent = exponent x + int k\<rparr>"





text \<open>\<^verbatim>\<open>round(x, n)\<close>\<close>

definition py_round :: "nat \<Rightarrow> decimal \<Rightarrow> decimal" where
  "py_round n x =
     (if exponent x < - int n then rescale (nat (- int n - exponent x)) x
      else \<lparr>coefficient = coefficient x * 10 ^ nat (exponent x + int n), exponent = - int n\<rparr>)"

subsection \<open>The library calls that draw at random\<close>


definition uniform :: "rat \<Rightarrow> rat \<Rightarrow> decimal \<Rightarrow> decimal option" where
  "uniform a b d = (if a \<le> dec_value d \<and> dec_value d \<le> b then Some d else None)"




definition double_4_99 :: rat where
  "double_4_99 = 2809120267572347 / 562949953421312"

definition double_59_99 :: rat where
  "double_59_99 = 8442841926436127 / 140737488355328"

subsection \<open>Books and sales\<close>

definition NUM_BOOKS :: nat where
  "NUM_BOOKS = 500"



text \<open>
  A book as the sales loop reads it: the entries \<^verbatim>\<open>book_id\<close> and \<^verbatim>\<open>price\<close> of its
  dictionary. The price is \<^verbatim>\<open>round(Decimal(random.uniform(4.99, 59.99)), 2)\<close>.
\<close>

record book =
  b_book_id :: nat
  b_price :: decimal

definition generate_book :: "nat \<Rightarrow> decimal \<Rightarrow> book option" where
  "generate_book i u =
     (case uniform double_4_99 double_59_99 u of
        None \<Rightarrow> None
      | Some x \<Rightarrow> Some \<lparr>b_book_id = i, b_price = py_round 2 x\<rparr>)"








text \<open>A price as the book loop leaves it: cents, between 4.99 and 59.99.\<close>

definition valid_price :: "decimal \<Rightarrow> bool" where
  "valid_price p = (exponent p = - 2 \<and> 499 \<le> coefficient p \<and> coefficient p \<le> 5999)"


section \<open>Example inputs\<close>

text \<open>A browser with a stored token, a server that answers every request with an empty
  JSON object, and a clock that advances 25 ms per reading.\<close>

definition example_env :: env where
  "example_env =
     \<lparr>localStorage = [''authToken'' \<mapsto> ''abc''],
      server = (\<lambda>c. Inr (200, Obj [])),
      clock = (\<lambda>n. 1000 + 25 * int n)\<rparr>"

text \<open>A browser that stores the empty string as its token.\<close>

definition empty_token_storage :: "string \<rightharpoonup> string" where
  "empty_token_storage = [''authToken'' \<mapsto> []]"

text \<open>A server that answers every request with status 200 and the JSON body \<^verbatim>\<open>null\<close>.\<close>

definition null_env :: env where
  "null_env =
     \<lparr>localStorage = Map.empty,
      server = (\<lambda>c. Inr (200, Null)),
      clock = (\<lambda>n. 1000 + 25 * int n)\<rparr>"

text \<open>A response to a request that started at 1000 ms, with an object body.\<close>

definition example_response :: response where
  "example_response =
     \<lparr>data = Obj [(''total_revenue'', num 12)], status = 200,
      req_config = timing_request 1000 (optimized_base GET ''/analytics/summary/'' [] Undefined)\<rparr>"


text \<open>Two books of one genre and a third of another; four sales, one of a book that is
  not in \<^verbatim>\<open>dim_book\<close>, one without amount.\<close>

definition example_book :: "int \<Rightarrow> string \<Rightarrow> dim_book_row" where
  "example_book i g =
     \<lparr>book_id = i, title = Some ''T'', author = Some ''A'', isbn = None, published_date = None,
      publisher = None, genre = Some g, price = Some 999\<rparr>"

definition example_sale :: "int \<Rightarrow> int \<Rightarrow> int \<Rightarrow> int option \<Rightarrow> fact_sales_row" where
  "example_sale i b q a =
     \<lparr>sale_id = i, sale_book_id = Some b, quantity = Some q,
      sale_date = Some \<lparr>ts_year = 2024, ts_month = 5, ts_day = 21, ts_hour = 10, ts_minute = 0, ts_second = 0\<rparr>,
      customer_id = None, region = Some ''Europe'', sale_amount = a\<rparr>"



section \<open>What the pages are expected to request\<close>




text \<open>A site after an earlier run: both tables exist and hold a row, and today's batch is
  in the bucket; and a run in which creating the schema fails while everything else
  succeeds.\<close>

definition earlier_site :: site where
  "earlier_site =
     \<lparr>books_csv = Some [example_book 1 ''Fiction''],
      sales_csv = Some [example_sale 1 1 2 (Some 1998)],
      s3_books = [''2024/05/21'' \<mapsto> [example_book 1 ''Fiction'']],
      s3_sales = [''2024/05/21'' \<mapsto> [example_sale 1 1 2 (Some 1998)]],
      dim_book = Some [example_book 1 ''Fiction''],
      fact_sales = Some [example_sale 1 1 2 (Some 1998)],
      started = []\<rparr>"

definition schema_failure :: outcomes where
  "schema_failure =
     \<lparr>has_python = True, has_pip = True, typed_password = ''secret'', generated = None,
      upload_day = ''2024/05/21'', put_books_ok = True, put_sales_ok = True,
      schema_ok = False, load_connects = True, load_day = ''2024/05/21'',
      copy_books_ok = True, copy_sales_ok = True\<rparr>"

definition rerun_args :: "string list" where
  "rerun_args = [''bucket'', ''host'', ''--iam-role'', ''arn'', ''--skip-generate'', ''--skip-upload'']"



section \<open>Properties of values and of the interceptors\<close>

lemma map_of_set_header_same: "map_of (set_header hs k x) k = Some x"
  by (induction hs) auto

lemma map_of_set_header_other: "k' \<noteq> k \<Longrightarrow> map_of (set_header hs k x) k' = map_of hs k'"
  by (induction hs) auto

text \<open>
  C10, as amended. The authorization interceptor of both services sets the header
  \<^verbatim>\<open>Authorization\<close> to \<^verbatim>\<open>Bearer\<close>, a space and the stored token exactly when
  \<^verbatim>\<open>localStorage\<close> holds a non-empty \<^verbatim>\<open>authToken\<close>, leaving every other header and
  every other part of the configuration as it was; with no token stored, or the empty
  string stored, the configuration is returned unchanged. What either instance hands
  to the adapter is the configuration this interceptor returned.
\<close>

theorem auth_interceptor_bearer:
  "(localStorage e ''authToken'' = Some token \<and> token \<noteq> [] \<longrightarrow>
      map_of (headers (auth_interceptor (localStorage e) cfg)) ''Authorization'' = Some (''Bearer '' @ token)
      \<and> (\<forall>k. k \<noteq> ''Authorization'' \<longrightarrow>
            map_of (headers (auth_interceptor (localStorage e) cfg)) k = map_of (headers cfg) k)
      \<and> auth_interceptor (localStorage e) cfg
          = cfg\<lparr>headers := headers (auth_interceptor (localStorage e) cfg)\<rparr>)
   \<and> (localStorage e ''authToken'' = None \<or> localStorage e ''authToken'' = Some [] \<longrightarrow>
        auth_interceptor (localStorage e) cfg = cfg)
   \<and> sent (snd (plain_request e cfg w)) = sent w @ [auth_interceptor (localStorage e) cfg]
   \<and> sent (snd (optimized_request e cfg w))
        = sent w @ [auth_interceptor (localStorage e) (timing_request (clock e (ticks w)) cfg)]"
proof (intro conjI impI)
  assume t: "localStorage e ''authToken'' = Some token \<and> token \<noteq> []"
  then have a: "auth_interceptor (localStorage e) cfg
      = cfg\<lparr>headers := set_header (headers cfg) ''Authorization'' (''Bearer '' @ token)\<rparr>"
    by (simp add: auth_interceptor_def)
  show "map_of (headers (auth_interceptor (localStorage e) cfg)) ''Authorization'' = Some (''Bearer '' @ token)"
    by (simp only: a) (simp add: map_of_set_header_same)
  show "\<forall>k. k \<noteq> ''Authorization'' \<longrightarrow>
            map_of (headers (auth_interceptor (localStorage e) cfg)) k = map_of (headers cfg) k"
    by (simp only: a) (simp add: map_of_set_header_other)
  show "auth_interceptor (localStorage e) cfg
          = cfg\<lparr>headers := headers (auth_interceptor (localStorage e) cfg)\<rparr>"
    by (simp only: a) simp
next
  assume "localStorage e ''authToken'' = None \<or> localStorage e ''authToken'' = Some []"
  then show "auth_interceptor (localStorage e) cfg = cfg"
    by (auto simp: auth_interceptor_def)
next
  show "sent (snd (plain_request e cfg w)) = sent w @ [auth_interceptor (localStorage e) cfg]"
    by (simp add: plain_request_def Let_def)
next
  show "sent (snd (optimized_request e cfg w))
        = sent w @ [auth_interceptor (localStorage e) (timing_request (clock e (ticks w)) cfg)]"
    by (cases "dispatch (server e) (auth_interceptor (localStorage e) (timing_request (clock e (ticks w)) cfg))")
       (simp_all add: optimized_request_def Let_def)
qed

theorem auth_interceptor_bearer_witness:
  "localStorage example_env ''authToken'' = Some ''abc''
   \<and> map_of (headers (auth_interceptor (localStorage example_env)
                (plain_base GET ''/analytics/summary/'' [] Undefined))) ''Authorization''
       = Some ''Bearer abc''"
  using auth_interceptor_bearer [of example_env "''abc''" "plain_base GET ''/analytics/summary/'' [] Undefined" world0]
  by (simp add: example_env_def)

text \<open>
  C10 as stated fails where \<^verbatim>\<open>localStorage\<close> holds the empty string under
  \<^verbatim>\<open>authToken\<close>: the storage contains an authToken, and the request carries no
  \<^verbatim>\<open>Authorization\<close> header.
\<close>

theorem empty_token_counterexample:
  "empty_token_storage ''authToken'' = Some []
   \<and> map_of (headers (auth_interceptor empty_token_storage
                (plain_base GET ''/analytics/summary/'' [] Undefined))) ''Authorization'' = None"
  by (simp add: auth_interceptor_def plain_base_def empty_token_storage_def)


lemma lookup_assign_same: "lookup (assign ps k x) k = x"
  by (induction ps) auto

lemma lookup_assign_other: "k' \<noteq> k \<Longrightarrow> lookup (assign ps k x) k' = lookup ps k'"
  by (induction ps) auto

lemma timing_Obj:
  "metadata (req_config resp) = Some t0 \<Longrightarrow> data resp = Obj ps \<Longrightarrow>
   \<not> truthy (lookup ps ''processing_info'') \<Longrightarrow>
   timing_response t1 resp
     = Inr (resp\<lparr>data := Obj (assign ps ''processing_info'' (processing_info_of (t1 - t0)))\<rparr>)"
  by (simp add: timing_response_def Let_def)

lemma timing_Arr:
  "metadata (req_config resp) = Some t0 \<Longrightarrow> data resp = Arr xs ps \<Longrightarrow>
   \<not> truthy (lookup ps ''processing_info'') \<Longrightarrow>
   timing_response t1 resp
     = Inr (resp\<lparr>data := Arr xs (assign ps ''processing_info'' (processing_info_of (t1 - t0)))\<rparr>)"
  by (simp add: timing_response_def Let_def)

lemma timing_truthy_info:
  "metadata (req_config resp) = Some t0 \<Longrightarrow> get_prop (data resp) ''processing_info'' = Inr info \<Longrightarrow>
   truthy info \<Longrightarrow> timing_response t1 resp = Inr resp"
  by (simp add: timing_response_def Let_def)

lemma timing_falsy_data:
  "metadata (req_config resp) = Some t0 \<Longrightarrow> \<not> truthy (data resp) \<Longrightarrow> timing_response t1 resp = Inr resp"
  by (simp add: timing_response_def Let_def)

lemma index_key_digits: "c \<in> set (index_key n) \<Longrightarrow> \<exists>d<10. c = digit_char d"
proof (induction n rule: index_key.induct)
  case (1 n)
  show ?case
  proof (cases "n < 10")
    case True
    have "index_key n = [digit_char n]"
      by (subst index_key.simps) (simp add: True)
    with 1(2) True show ?thesis by auto
  next
    case False
    have "index_key n = index_key (n div 10) @ [digit_char (n mod 10)]"
      by (subst index_key.simps) (simp add: False)
    with 1(2) have "c \<in> set (index_key (n div 10)) \<or> c = digit_char (n mod 10)" by auto
    then show ?thesis
    proof
      assume "c \<in> set (index_key (n div 10))"
      with 1(1) False show ?thesis by blast
    next
      assume "c = digit_char (n mod 10)"
      moreover have "n mod 10 < 10" by simp
      ultimately show ?thesis by blast
    qed
  qed
qed

lemma digit_char_not_p: "d < 10 \<longrightarrow> digit_char d \<noteq> CHR ''p''"
proof (intro impI notI)
  assume d: "d < 10" and "digit_char d = CHR ''p''"
  then have "of_char (char_of (48 + d) :: char) = (of_char (CHR ''p'') :: nat)"
    by (simp add: digit_char_def)
  with d show False by simp
qed

lemma index_key_not_name: "index_key i \<noteq> ''processing_info''"
proof
  assume "index_key i = ''processing_info''"
  then have "CHR ''p'' \<in> set (index_key i)" by simp
  from index_key_digits [OF this] obtain d where d: "d < 10" "CHR ''p'' = digit_char d"
    by (elim exE conjE)
  from digit_char_not_p [of d] d(1) have "digit_char d \<noteq> CHR ''p''" by (rule mp)
  with d(2) show False by (simp only:) simp
qed

lemma timing_object:
  assumes m: "metadata (req_config resp) = Some t0"
    and o: "is_object (data resp)"
    and i: "get_prop (data resp) ''processing_info'' = Inr info" "\<not> truthy info"
  shows "\<exists>d. timing_response t1 resp = Inr (resp\<lparr>data := d\<rparr>)
           \<and> get_prop d ''processing_info'' = Inr (processing_info_of (t1 - t0))
           \<and> (\<forall>k. k \<noteq> ''processing_info'' \<longrightarrow> get_prop d k = get_prop (data resp) k)
           \<and> (\<forall>i. opt_index d i = opt_index (data resp) i)"
proof -
  from o consider (Obj) ps where "data resp = Obj ps" | (Arr) xs ps where "data resp = Arr xs ps"
    by (cases "data resp") (simp_all add: is_object_def)
  then show ?thesis
  proof cases
  case (Obj ps)
  with i have f: "\<not> truthy (lookup ps ''processing_info'')" by simp
  let ?d = "Obj (assign ps ''processing_info'' (processing_info_of (t1 - t0)))"
  have 1: "timing_response t1 resp = Inr (resp\<lparr>data := ?d\<rparr>)"
    by (rule timing_Obj [OF m Obj f])
  have 2: "get_prop ?d ''processing_info'' = Inr (processing_info_of (t1 - t0))"
    by (simp only: get_prop.simps lookup_assign_same)
  have 3: "\<forall>k. k \<noteq> ''processing_info'' \<longrightarrow> get_prop ?d k = get_prop (data resp) k"
    by (simp add: Obj lookup_assign_other)
  have 4: "\<forall>i. opt_index ?d i = opt_index (data resp) i"
    by (simp add: Obj lookup_assign_other index_key_not_name)
  from 1 2 3 4 show ?thesis by blast
next
  case (Arr xs ps)
  with i have f: "\<not> truthy (lookup ps ''processing_info'')" by simp
  let ?d = "Arr xs (assign ps ''processing_info'' (processing_info_of (t1 - t0)))"
  have 1: "timing_response t1 resp = Inr (resp\<lparr>data := ?d\<rparr>)"
    by (rule timing_Arr [OF m Arr f])
  have 2: "get_prop ?d ''processing_info'' = Inr (processing_info_of (t1 - t0))"
    by (simp only: get_prop.simps lookup_assign_same)
  have 3: "\<forall>k. k \<noteq> ''processing_info'' \<longrightarrow> get_prop ?d k = get_prop (data resp) k"
    by (simp add: Arr lookup_assign_other)
  have 4: "\<forall>i. opt_index ?d i = opt_index (data resp) i"
    by (simp add: Arr)
  from 1 2 3 4 show ?thesis by blast
qed
qed

lemma dispatch_Inr:
  "dispatch srv c = Inr resp \<Longrightarrow>
   \<exists>st d. srv c = Inr (st, d) \<and> 200 \<le> st \<and> st < 300 \<and> resp = \<lparr>data = d, status = st, req_config = c\<rparr>"
  by (cases "srv c") (auto simp: dispatch_def split: if_splits)

lemma metadata_auth: "metadata (auth_interceptor ls cfg) = metadata cfg"
  by (simp add: auth_interceptor_def split: option.splits)

lemma optimized_request_served:
  assumes r: "optimized_request e cfg w = (Inr served, w')"
  shows "\<exists>c st d.
          sent w' = sent w @ [c] \<and> server e c = Inr (st, d) \<and> 200 \<le> st \<and> st < 300
          \<and> metadata c = Some (clock e (ticks w))
          \<and> timing_response (clock e (Suc (ticks w))) \<lparr>data = d, status = st, req_config = c\<rparr> = Inr served"
proof -
  define c where "c = auth_interceptor (localStorage e) (timing_request (clock e (ticks w)) cfg)"
  have mc: "metadata c = Some (clock e (ticks w))"
    by (simp add: c_def metadata_auth timing_request_def)
  show ?thesis
  proof (cases "dispatch (server e) c")
    case (Inl err)
    with r show ?thesis
      by (simp add: optimized_request_def Let_def c_def)
  next
    case (Inr resp)
    with r have "(timing_response (clock e (Suc (ticks w))) resp,
         w\<lparr>ticks := Suc (ticks w), sent := sent w @ [c], ticks := Suc (Suc (ticks w))\<rparr>) = (Inr served, w')"
      by (simp add: optimized_request_def Let_def c_def)
    then have t: "timing_response (clock e (Suc (ticks w))) resp = Inr served"
      and "w' = w\<lparr>ticks := Suc (ticks w), sent := sent w @ [c], ticks := Suc (Suc (ticks w))\<rparr>"
      by simp_all
    then have w': "sent w' = sent w @ [c]" by simp
    from dispatch_Inr [OF Inr] obtain st d where
      "server e c = Inr (st, d)" "200 \<le> st" "st < 300" "resp = \<lparr>data = d, status = st, req_config = c\<rparr>"
      by blast
    with t w' mc show ?thesis by blast
  qed
qed


text \<open>
  C4, as amended. With the start time recorded in the request's metadata: a response
  whose data is an object or an array with no truthy \<^verbatim>\<open>processing_info\<close> gets
  \<^verbatim>\<open>processing_info = {processing_time_ms: endTime - startTime, cached: false}\<close>, every
  other property and every element staying as it was; a response whose data has a truthy
  \<^verbatim>\<open>processing_info\<close>, and a response whose data is falsy (\<^verbatim>\<open>null\<close>, the empty
  string, 0, \<^verbatim>\<open>false\<close>), is passed through unchanged. Every response the optimized
  instance serves is the server's 2xx answer to the one request it has just sent, run
  through this interceptor with the two clock readings taken around the request.
\<close>

theorem timing_response_annotates:
  "(metadata (req_config resp) = Some startTime \<longrightarrow>
     (is_object (data resp) \<and> (\<exists>info. get_prop (data resp) ''processing_info'' = Inr info \<and> \<not> truthy info) \<longrightarrow>
        (\<exists>d. timing_response endTime resp = Inr (resp\<lparr>data := d\<rparr>)
           \<and> get_prop d ''processing_info'' = Inr (processing_info_of (endTime - startTime))
           \<and> (\<forall>k. k \<noteq> ''processing_info'' \<longrightarrow> get_prop d k = get_prop (data resp) k)
           \<and> (\<forall>i. opt_index d i = opt_index (data resp) i)))
   \<and> ((\<exists>info. get_prop (data resp) ''processing_info'' = Inr info \<and> truthy info) \<longrightarrow>
         timing_response endTime resp = Inr resp)
   \<and> (\<not> truthy (data resp) \<longrightarrow> timing_response endTime resp = Inr resp))
  \<and> (optimized_request e cfg w = (Inr served, w') \<longrightarrow>
       (\<exists>c st d.
          sent w' = sent w @ [c] \<and> server e c = Inr (st, d) \<and> 200 \<le> st \<and> st < 300
          \<and> metadata c = Some (clock e (ticks w))
          \<and> timing_response (clock e (Suc (ticks w))) \<lparr>data = d, status = st, req_config = c\<rparr> = Inr served))"
proof (intro conjI impI)
  assume m: "metadata (req_config resp) = Some startTime"
    and h: "is_object (data resp) \<and> (\<exists>info. get_prop (data resp) ''processing_info'' = Inr info \<and> \<not> truthy info)"
  from h obtain info where "is_object (data resp)"
    "get_prop (data resp) ''processing_info'' = Inr info" "\<not> truthy info"
    by (elim conjE exE)
  then show "\<exists>d. timing_response endTime resp = Inr (resp\<lparr>data := d\<rparr>)
           \<and> get_prop d ''processing_info'' = Inr (processing_info_of (endTime - startTime))
           \<and> (\<forall>k. k \<noteq> ''processing_info'' \<longrightarrow> get_prop d k = get_prop (data resp) k)
           \<and> (\<forall>i. opt_index d i = opt_index (data resp) i)"
    by (rule timing_object [OF m])
next
  assume m: "metadata (req_config resp) = Some startTime"
    and h: "\<exists>info. get_prop (data resp) ''processing_info'' = Inr info \<and> truthy info"
  from h obtain info where "get_prop (data resp) ''processing_info'' = Inr info" "truthy info"
    by (elim conjE exE)
  then show "timing_response endTime resp = Inr resp"
    by (rule timing_truthy_info [OF m])
next
  assume "metadata (req_config resp) = Some startTime" "\<not> truthy (data resp)"
  then show "timing_response endTime resp = Inr resp"
    by (rule timing_falsy_data)
next
  assume "optimized_request e cfg w = (Inr served, w')"
  then show "\<exists>c st d.
          sent w' = sent w @ [c] \<and> server e c = Inr (st, d) \<and> 200 \<le> st \<and> st < 300
          \<and> metadata c = Some (clock e (ticks w))
          \<and> timing_response (clock e (Suc (ticks w))) \<lparr>data = d, status = st, req_config = c\<rparr> = Inr served"
    by (rule optimized_request_served)
qed

theorem timing_response_annotates_witness:
  "metadata (req_config example_response) = Some 1000
   \<and> is_object (data example_response)
   \<and> get_prop (data example_response) ''processing_info'' = Inr Undefined
   \<and> (\<exists>d. timing_response 1025 example_response = Inr (example_response\<lparr>data := d\<rparr>)
           \<and> get_prop d ''processing_info'' = Inr (processing_info_of 25)
           \<and> get_prop d ''total_revenue'' = Inr (num 12))"
proof -
  have m: "metadata (req_config example_response) = Some 1000"
    by (simp add: example_response_def timing_request_def)
  have o: "is_object (data example_response)"
    by (simp add: example_response_def is_object_def)
  have i: "get_prop (data example_response) ''processing_info'' = Inr Undefined"
    by (simp add: example_response_def)
  have t: "get_prop (data example_response) ''total_revenue'' = Inr (num 12)"
    by (simp add: example_response_def)
  have n: "''total_revenue'' \<noteq> ''processing_info''" by simp
  have f: "\<not> truthy Undefined" by simp
  have imp: "is_object (data example_response)
      \<and> (\<exists>info. get_prop (data example_response) ''processing_info'' = Inr info \<and> \<not> truthy info) \<longrightarrow>
      (\<exists>d. timing_response 1025 example_response = Inr (example_response\<lparr>data := d\<rparr>)
         \<and> get_prop d ''processing_info'' = Inr (processing_info_of (1025 - 1000))
         \<and> (\<forall>k. k \<noteq> ''processing_info'' \<longrightarrow> get_prop d k = get_prop (data example_response) k)
         \<and> (\<forall>i. opt_index d i = opt_index (data example_response) i))"
    by (rule timing_response_annotates [of example_response 1000 1025, THEN conjunct1, THEN mp, OF m,
          THEN conjunct1])
  from i f have "\<exists>info. get_prop (data example_response) ''processing_info'' = Inr info \<and> \<not> truthy info"
    by (intro exI [of _ Undefined] conjI)
  with o have hyp: "is_object (data example_response)
      \<and> (\<exists>info. get_prop (data example_response) ''processing_info'' = Inr info \<and> \<not> truthy info)"
    by (rule conjI)
  from imp hyp have "\<exists>d. timing_response 1025 example_response = Inr (example_response\<lparr>data := d\<rparr>)
         \<and> get_prop d ''processing_info'' = Inr (processing_info_of (1025 - 1000))
         \<and> (\<forall>k. k \<noteq> ''processing_info'' \<longrightarrow> get_prop d k = get_prop (data example_response) k)
         \<and> (\<forall>i. opt_index d i = opt_index (data example_response) i)"
    by (rule mp)
  then obtain d where d: "timing_response 1025 example_response = Inr (example_response\<lparr>data := d\<rparr>)"
    "get_prop d ''processing_info'' = Inr (processing_info_of (1025 - 1000))"
    "\<forall>k. k \<noteq> ''processing_info'' \<longrightarrow> get_prop d k = get_prop (data example_response) k"
    "\<forall>i. opt_index d i = opt_index (data example_response) i"
    by blast
  from d(3) have "''total_revenue'' \<noteq> ''processing_info'' \<longrightarrow>
      get_prop d ''total_revenue'' = get_prop (data example_response) ''total_revenue''"
    by (rule spec)
  from this n have "get_prop d ''total_revenue'' = get_prop (data example_response) ''total_revenue''"
    by (rule mp)
  with t have t': "get_prop d ''total_revenue'' = Inr (num 12)" by (simp only:)
  from d(2) have p: "get_prop d ''processing_info'' = Inr (processing_info_of 25)" by simp
  from d(1) p t' have "\<exists>d. timing_response 1025 example_response = Inr (example_response\<lparr>data := d\<rparr>)
           \<and> get_prop d ''processing_info'' = Inr (processing_info_of 25)
           \<and> get_prop d ''total_revenue'' = Inr (num 12)"
    by (intro exI [of _ d] conjI)
  with m o i show ?thesis by (intro conjI)
qed

text \<open>
  C4 as stated fails on a successful response with the body \<^verbatim>\<open>null\<close>: its data has
  no \<^verbatim>\<open>processing_info\<close>, and what the operation returns has none either.
\<close>

theorem null_body_counterexample:
  "server null_env (auth_interceptor (localStorage null_env)
       (timing_request 1000 (optimized_base GET ''/analytics/summary/'' [] Undefined))) = Inr (200, Null)
   \<and> fst (optimizedAnalyticsService null_env DashboardSummary world0) = Inr Null"
  by (simp add: null_env_def world0_def opt_getDashboardSummary_def optimized_request_def Let_def
        optimized_base_def timing_request_def auth_interceptor_def dispatch_def timing_response_def
        try_catch_def)


section \<open>Properties of the services\<close>


lemma wire_auth: "wire (auth_interceptor ls c) = wire c"
  by (simp add: wire_def auth_interceptor_def split: option.splits)

lemma wire_timing: "wire (timing_request t c) = wire c"
  by (simp add: wire_def timing_request_def)

lemma plain_request_sent: "sent (snd (plain_request e cfg w)) = sent w @ [auth_interceptor (localStorage e) cfg]"
  by (simp add: plain_request_def Let_def)

lemma optimized_request_sent:
  "sent (snd (optimized_request e cfg w))
     = sent w @ [auth_interceptor (localStorage e) (timing_request (clock e (ticks w)) cfg)]"
  by (cases "dispatch (server e) (auth_interceptor (localStorage e) (timing_request (clock e (ticks w)) cfg))")
     (simp_all add: optimized_request_def Let_def)

lemma try_catch_sent: "sent (snd (try_catch msg r)) = sent (snd r)"
  by (cases r; cases "fst r") (simp_all add: try_catch_def)

lemma plain_call_wire:
  "map wire (sent (snd (try_catch msg (plain_request e cfg w)))) = map wire (sent w) @ [wire cfg]"
  by (simp add: try_catch_sent plain_request_sent wire_auth)

lemma optimized_call_wire:
  "map wire (sent (snd (try_catch msg (optimized_request e cfg w)))) = map wire (sent w) @ [wire cfg]"
  by (simp add: try_catch_sent optimized_request_sent wire_auth wire_timing)

lemma wire_plain_base: "wire (plain_base m p ps b) = (m, ''/api'' @ p, ps)"
  by (simp add: wire_def plain_base_def)

lemma wire_optimized_base: "wire (optimized_base m p ps b) = (m, ''/api'' @ p, ps)"
  by (simp add: wire_def optimized_base_def)








text \<open>
  C8. Called with no arguments or with arguments, the five aggregate operations of
  each service issue one GET each, to \<^verbatim>\<open>/api/analytics/summary/\<close>,
  \<^verbatim>\<open>/api/analytics/timeseries/\<close> (\<^verbatim>\<open>/api/analytics/optimized-timeseries/\<close> in the
  optimized service), \<^verbatim>\<open>/api/analytics/top-books/\<close>, \<^verbatim>\<open>/api/analytics/sales-by-region/\<close>
  and \<^verbatim>\<open>/api/analytics/sales-by-genre/\<close>, five distinct paths, with the parameters
  \<^verbatim>\<open>interval\<close> (default \<^verbatim>\<open>day\<close>, in the optimized service \<^verbatim>\<open>auto\<close>), \<^verbatim>\<open>limit\<close>
  (default 10) and \<^verbatim>\<open>days\<close> (default 30).
\<close>


theorem api_surface:
  "map wire (sent (snd (analyticsService e DashboardSummary world0)))
     = [(GET, ''/api/analytics/summary/'', [])]
   \<and> map wire (sent (snd (analyticsService e (SalesTimeSeries interval days) world0)))
     = [(GET, ''/api/analytics/timeseries/'',
         [(''interval'', if interval = Undefined then Str ''day'' else interval),
          (''days'', if days = Undefined then num 30 else days)])]
   \<and> map wire (sent (snd (analyticsService e (TopBooks limit days) world0)))
     = [(GET, ''/api/analytics/top-books/'',
         [(''limit'', if limit = Undefined then num 10 else limit),
          (''days'', if days = Undefined then num 30 else days)])]
   \<and> map wire (sent (snd (analyticsService e (SalesByRegion days) world0)))
     = [(GET, ''/api/analytics/sales-by-region/'', [(''days'', if days = Undefined then num 30 else days)])]
   \<and> map wire (sent (snd (analyticsService e (SalesByGenre days) world0)))
     = [(GET, ''/api/analytics/sales-by-genre/'', [(''days'', if days = Undefined then num 30 else days)])]
   \<and> map wire (sent (snd (optimizedAnalyticsService e DashboardSummary world0)))
     = [(GET, ''/api/analytics/summary/'', [])]
   \<and> map wire (sent (snd (optimizedAnalyticsService e (SalesTimeSeries interval days) world0)))
     = [(GET, ''/api/analytics/optimized-timeseries/'',
         [(''interval'', if interval = Undefined then Str ''auto'' else interval),
          (''days'', if days = Undefined then num 30 else days)])]
   \<and> map wire (sent (snd (optimizedAnalyticsService e (TopBooks limit days) world0)))
     = [(GET, ''/api/analytics/top-books/'',
         [(''limit'', if limit = Undefined then num 10 else limit),
          (''days'', if days = Undefined then num 30 else days)])]
   \<and> map wire (sent (snd (optimizedAnalyticsService e (SalesByRegion days) world0)))
     = [(GET, ''/api/analytics/sales-by-region/'', [(''days'', if days = Undefined then num 30 else days)])]
   \<and> map wire (sent (snd (optimizedAnalyticsService e (SalesByGenre days) world0)))
     = [(GET, ''/api/analytics/sales-by-genre/'', [(''days'', if days = Undefined then num 30 else days)])]
   \<and> distinct [''/api/analytics/summary/'', ''/api/analytics/timeseries/'', ''/api/analytics/top-books/'',
                 ''/api/analytics/sales-by-region/'', ''/api/analytics/sales-by-genre/'']
   \<and> distinct [''/api/analytics/summary/'', ''/api/analytics/optimized-timeseries/'', ''/api/analytics/top-books/'',
                 ''/api/analytics/sales-by-region/'', ''/api/analytics/sales-by-genre/'']"
proof -
  have s0: "sent world0 = []" by (simp add: world0_def)
  have 1: "map wire (sent (snd (analyticsService e DashboardSummary world0)))
     = [(GET, ''/api/analytics/summary/'', [])]"
    by (simp add: getDashboardSummary_def plain_call_wire wire_plain_base s0)
  have 2: "map wire (sent (snd (analyticsService e (SalesTimeSeries interval days) world0)))
     = [(GET, ''/api/analytics/timeseries/'',
         [(''interval'', if interval = Undefined then Str ''day'' else interval),
          (''days'', if days = Undefined then num 30 else days)])]"
    by (simp add: getSalesTimeSeries_def plain_call_wire wire_plain_base s0 dflt_def)
  have 3: "map wire (sent (snd (analyticsService e (TopBooks limit days) world0)))
     = [(GET, ''/api/analytics/top-books/'',
         [(''limit'', if limit = Undefined then num 10 else limit),
          (''days'', if days = Undefined then num 30 else days)])]"
    by (simp add: getTopBooks_def plain_call_wire wire_plain_base s0 dflt_def)
  have 4: "map wire (sent (snd (analyticsService e (SalesByRegion days) world0)))
     = [(GET, ''/api/analytics/sales-by-region/'', [(''days'', if days = Undefined then num 30 else days)])]"
    by (simp add: getSalesByRegion_def plain_call_wire wire_plain_base s0 dflt_def)
  have 5: "map wire (sent (snd (analyticsService e (SalesByGenre days) world0)))
     = [(GET, ''/api/analytics/sales-by-genre/'', [(''days'', if days = Undefined then num 30 else days)])]"
    by (simp add: getSalesByGenre_def plain_call_wire wire_plain_base s0 dflt_def)
  have 6: "map wire (sent (snd (optimizedAnalyticsService e DashboardSummary world0)))
     = [(GET, ''/api/analytics/summary/'', [])]"
    by (simp add: opt_getDashboardSummary_def optimized_call_wire wire_optimized_base s0)
  have 7: "map wire (sent (snd (optimizedAnalyticsService e (SalesTimeSeries interval days) world0)))
     = [(GET, ''/api/analytics/optimized-timeseries/'',
         [(''interval'', if interval = Undefined then Str ''auto'' else interval),
          (''days'', if days = Undefined then num 30 else days)])]"
    by (simp add: opt_getSalesTimeSeries_def optimized_call_wire wire_optimized_base s0 dflt_def)
  have 8: "map wire (sent (snd (optimizedAnalyticsService e (TopBooks limit days) world0)))
     = [(GET, ''/api/analytics/top-books/'',
         [(''limit'', if limit = Undefined then num 10 else limit),
          (''days'', if days = Undefined then num 30 else days)])]"
    by (simp add: opt_getTopBooks_def optimized_call_wire wire_optimized_base s0 dflt_def)
  have 9: "map wire (sent (snd (optimizedAnalyticsService e (SalesByRegion days) world0)))
     = [(GET, ''/api/analytics/sales-by-region/'', [(''days'', if days = Undefined then num 30 else days)])]"
    by (simp add: opt_getSalesByRegion_def optimized_call_wire wire_optimized_base s0 dflt_def)
  have 10: "map wire (sent (snd (optimizedAnalyticsService e (SalesByGenre days) world0)))
     = [(GET, ''/api/analytics/sales-by-genre/'', [(''days'', if days = Undefined then num 30 else days)])]"
    by (simp add: opt_getSalesByGenre_def optimized_call_wire wire_optimized_base s0 dflt_def)
  have 11: "distinct [''/api/analytics/summary/'', ''/api/analytics/timeseries/'', ''/api/analytics/top-books/'',
                 ''/api/analytics/sales-by-region/'', ''/api/analytics/sales-by-genre/'']"
    by simp
  have 12: "distinct [''/api/analytics/summary/'', ''/api/analytics/optimized-timeseries/'', ''/api/analytics/top-books/'',
                 ''/api/analytics/sales-by-region/'', ''/api/analytics/sales-by-genre/'']"
    by simp
  from 1 2 3 4 5 6 7 8 9 10 11 12 show ?thesis by (intro conjI)
qed


section \<open>Properties of the dashboard pages\<close>












lemma series_use_summary: "timeSeriesData (use_summary r d) = timeSeriesData d"
  by (cases r) (simp_all add: use_summary_def)













lemma num_defined: "num v \<noteq> Undefined"
  by (simp add: num_def)































lemma gt_zero_nonzero: "gt_zero n \<Longrightarrow> n \<noteq> Fin 0"
  by (cases n) auto

lemma js_divide_guarded: "gt_zero (to_number rt b) \<Longrightarrow> js_divide rt a b = Value (number_div rt (to_number rt a) (to_number rt b))"
  by (simp add: js_divide_def gt_zero_nonzero)

lemma avg_revenue_per_book_cases:
  "avg_revenue_per_book rt row =
     (case get_prop row ''books_sold'' of
        Inl e \<Rightarrow> Throws e
      | Inr books_sold \<Rightarrow>
          if gt_zero (to_number rt books_sold) then
            (case get_prop row ''revenue'' of
               Inl e \<Rightarrow> Throws e
             | Inr r \<Rightarrow> Value (number_div rt (to_number rt r) (to_number rt books_sold)))
          else Value (Fin 0))"
  by (cases "get_prop row ''books_sold''"; cases "get_prop row ''revenue''")
     (simp_all add: avg_revenue_per_book_def js_divide_guarded)

lemma avg_revenue_per_book_safe: "avg_revenue_per_book rt row \<noteq> ZeroDivisor"
  by (cases "get_prop row ''books_sold''"; cases "get_prop row ''revenue''")
     (simp_all add: avg_revenue_per_book_cases)

lemma details_column_safe: "ZeroDivisor \<notin> set (details_column rt l rows)"
  using avg_revenue_per_book_safe [of rt, symmetric]
  by (cases rows) (auto simp: details_column_def)

lemma to_number_length: "to_number rt (num (int n)) = Fin (of_nat n)"
  by (simp add: num_def)

lemma reference_line_safe: "reference_line rt series \<noteq> Some ZeroDivisor"
  by (cases "length series > 0") (simp_all add: reference_line_def js_divide_def to_number_length)

lemma reference_line_value:
  "reference_line rt series =
     (if series = [] then None
      else Some (Value (number_div rt
                   (to_number rt (foldl (\<lambda>acc item. js_plus rt acc (revenue item)) (num 0) series))
                   (Fin (of_nat (length series))))))"
proof (cases "series = []")
  case True
  then show ?thesis by (simp add: reference_line_def)
next
  case False
  then have l: "0 < length series" by simp
  then have nz: "(of_nat (length series) :: rat) \<noteq> 0" by simp
  from False l nz show ?thesis
    by (simp add: reference_line_def js_divide_def to_number_length)
qed

lemma tick_interval_safe: "tick_interval rt series \<noteq> ZeroDivisor"
  by (simp add: tick_interval_def js_divide_def num_def)


text \<open>
  C9. No division of the pages over fetched data has a zero divisor, whatever the
  response holds and however the runtime converts it to numbers: the last cell of a
  details row is \<^verbatim>\<open>revenue / books_sold\<close> when \<^verbatim>\<open>books_sold > 0\<close> and 0 otherwise;
  the reference line divides the summed revenue by the length of the series when the
  series is not empty and is not drawn otherwise; the tick interval divides by 12.
\<close>

theorem divisions_guarded:
  "avg_revenue_per_book rt row \<noteq> ZeroDivisor
   \<and> avg_revenue_per_book rt row =
     (case get_prop row ''books_sold'' of
        Inl e \<Rightarrow> Throws e
      | Inr books_sold \<Rightarrow>
          if gt_zero (to_number rt books_sold) then
            (case get_prop row ''revenue'' of
               Inl e \<Rightarrow> Throws e
             | Inr r \<Rightarrow> Value (number_div rt (to_number rt r) (to_number rt books_sold)))
          else Value (Fin 0))
   \<and> ZeroDivisor \<notin> set (details_column rt is_loading rows)
   \<and> reference_line rt series \<noteq> Some ZeroDivisor
   \<and> reference_line rt series =
     (if series = [] then None
      else Some (Value (number_div rt
                   (to_number rt (foldl (\<lambda>acc item. js_plus rt acc (revenue item)) (num 0) series))
                   (Fin (of_nat (length series))))))
   \<and> tick_interval rt series \<noteq> ZeroDivisor"
  by (intro conjI avg_revenue_per_book_safe avg_revenue_per_book_cases details_column_safe
        reference_line_safe reference_line_value tick_interval_safe)


section \<open>Properties of the aggregate views\<close>





































section \<open>Properties of the script\<close>

lemma started_generate: "started (generate out s) = started s @ [Generate]"
  by (cases "generated out") (auto simp: generate_def Let_def)

lemma started_upload: "started (upload out s) = started s @ [Upload]"
  by (cases "books_csv s"; cases "sales_csv s") (simp_all add: upload_def Let_def)

lemma started_create_schema: "started (create_schema out s) = started s @ [Create_schema]"
  by (simp add: create_schema_def Let_def)

lemma started_load: "started (load out s) = started s @ [Load]"
  by (simp add: load_def Let_def)

lemma started_run_phases:
  "started (run_phases opts out s)
     = started s @ (if \<not> SKIP_GENERATE opts then [Generate] else [])
         @ (if \<not> SKIP_UPLOAD opts then [Upload] else [])
         @ (if \<not> SKIP_REDSHIFT opts then [Create_schema, Load] else [])"
  by (simp add: run_phases_def Let_def started_generate started_upload started_create_schema started_load)

lemma exits_unchanged_or_after_phases:
  assumes "setup_analytics_data args out s = Exited n s'"
  shows "(n = 1 \<and> s' = s) \<or> (\<exists>opts. n = 0 \<and> s' = run_phases opts out s)"
proof (cases "parse_options (drop 2 args) (default_options (args ! 0) (args ! 1))")
  case Loops_forever
  with assms show ?thesis by (simp add: setup_analytics_data_def split: if_splits)
next
  case Unknown_option
  with assms show ?thesis by (simp add: setup_analytics_data_def split: if_splits)
next
  case (Parsed opts)
  with assms show ?thesis by (auto simp: setup_analytics_data_def split: if_splits)
qed

lemma phases_in_order:
  assumes "setup_analytics_data args out s = Exited n s'"
  shows "\<exists>g u l. started s' = started s @ (if g then [Generate] else []) @ (if u then [Upload] else [])
                      @ (if l then [Create_schema, Load] else [])"
proof -
  from exits_unchanged_or_after_phases [OF assms]
  consider "s' = s" | opts where "s' = run_phases opts out s" by blast
  then show ?thesis
  proof cases
    case 1
    then have "started s' = started s @ (if False then [Generate] else []) @ (if False then [Upload] else [])
                      @ (if False then [Create_schema, Load] else [])" by simp
    then show ?thesis by blast
  next
    case 2
    then have "started s' = started s @ (if \<not> SKIP_GENERATE opts then [Generate] else [])
         @ (if \<not> SKIP_UPLOAD opts then [Upload] else [])
         @ (if \<not> SKIP_REDSHIFT opts then [Create_schema, Load] else [])"
      by (simp only: started_run_phases)
    then show ?thesis by blast
  qed
qed

lemma load_after_schema:
  assumes "schema_ok out"
  shows "dim_book (load out (create_schema out s))
           = (if load_connects out then copy_into (copy_books_ok out) (s3_books s (load_day out)) (Some []) else Some [])"
    and "fact_sales (load out (create_schema out s))
           = (if load_connects out then copy_into (copy_sales_ok out) (s3_sales s (load_day out)) (Some []) else Some [])"
  using assms by (simp_all add: load_def create_schema_def Let_def)


lemma rerun_parsed:
  "parse_options (drop 2 rerun_args) (default_options (rerun_args ! 0) (rerun_args ! 1))
     = Parsed ((default_options ''bucket'' ''host'')\<lparr>IAM_ROLE := ''arn'', SKIP_GENERATE := True, SKIP_UPLOAD := True\<rparr>)"
  by (simp add: rerun_args_def)


text \<open>
  C3. The script starts its Python programs in the order generate, upload, create
  schema, load, each at most once (lemma \<open>phases_in_order\<close>), and when creating the
  schema succeeds the tables are loaded from empty (lemma \<open>load_after_schema\<close>). But
  a failure of the schema program does not stop the script: run again on a warehouse
  that holds the rows of an earlier batch, with the schema program failing and the rest
  succeeding, it copies the batch into the tables as they are, which then hold the
  earlier rows and the new ones.
\<close>

theorem failed_schema_then_copy:
  "setup_analytics_data rerun_args schema_failure earlier_site
     = Exited 0 (earlier_site
         \<lparr>dim_book := Some [example_book 1 ''Fiction'', example_book 1 ''Fiction''],
          fact_sales := Some [example_sale 1 1 2 (Some 1998), example_sale 1 1 2 (Some 1998)],
          started := [Create_schema, Load]\<rparr>)"
proof -
  have l: "\<not> length rerun_args < 2" by (simp add: rerun_args_def)
  have o: "has_python schema_failure" "has_pip schema_failure"
    by (simp_all add: schema_failure_def)
  have r: "setup_analytics_data rerun_args schema_failure earlier_site
      = Exited 0 (load schema_failure (create_schema schema_failure earlier_site))"
    unfolding setup_analytics_data_def rerun_parsed
    by (simp add: l o Let_def default_options_def with_password_def run_phases_def)
  have c: "create_schema schema_failure earlier_site = earlier_site\<lparr>started := [Create_schema]\<rparr>"
    by (simp add: create_schema_def schema_failure_def earlier_site_def)
  have "load schema_failure (earlier_site\<lparr>started := [Create_schema]\<rparr>)
      = earlier_site
         \<lparr>dim_book := Some [example_book 1 ''Fiction'', example_book 1 ''Fiction''],
          fact_sales := Some [example_sale 1 1 2 (Some 1998), example_sale 1 1 2 (Some 1998)],
          started := [Create_schema, Load]\<rparr>"
    by (simp add: load_def schema_failure_def earlier_site_def copy_into_def Let_def)
  with r c show ?thesis by simp
qed


theorem failed_schema_then_copy_witness:
  "\<exists>s'. setup_analytics_data rerun_args schema_failure earlier_site = Exited 0 s'
      \<and> fact_sales earlier_site = Some [example_sale 1 1 2 (Some 1998)]
      \<and> fact_sales s' = Some [example_sale 1 1 2 (Some 1998), example_sale 1 1 2 (Some 1998)]
      \<and> started s' = [Create_schema, Load]"
  using failed_schema_then_copy by (simp add: earlier_site_def)


section \<open>Properties of the generated sales\<close>

lemma round_half_even_exact: "0 < m \<Longrightarrow> round_half_even (n * m) m = n"
  by (simp add: round_half_even_def Let_def)


lemma round_half_even_ge:
  assumes "0 < m" "n * m \<le> c"
  shows "n \<le> round_half_even c m"
proof -
  have "n \<le> c div m"
    using zdiv_mono1 [of "n * m" c m] assms by simp
  then show ?thesis by (simp add: round_half_even_def Let_def)
qed

lemma round_half_even_below_half:
  assumes "0 < m" "2 * c < (2 * n + 1) * m"
  shows "round_half_even c m \<le> n"
proof -
  have cm: "c = (c div m) * m + c mod m" by simp
  have r: "0 \<le> c mod m" "c mod m < m" using assms by simp_all
  have q: "c div m \<le> n"
  proof (rule ccontr)
    assume "\<not> c div m \<le> n"
    then have "n + 1 \<le> c div m" by simp
    then have "(n + 1) * m \<le> (c div m) * m" using assms by simp
    then have "(n + 1) * m \<le> c" using cm r by linarith
    then have "2 * ((n + 1) * m) \<le> 2 * c" by simp
    with assms show False by (simp add: algebra_simps)
  qed
  show ?thesis
  proof (cases "c div m = n")
    case True
    have "2 * c = 2 * n * m + 2 * (c mod m)" using cm True by (metis distrib_left mult.assoc)
    with assms have "2 * (c mod m) < m" by (simp add: algebra_simps)
    then show ?thesis using True by (simp add: round_half_even_def Let_def)
  next
    case False
    with q have "c div m + 1 \<le> n" by simp
    then show ?thesis by (simp add: round_half_even_def Let_def)
  qed
qed






lemma ten_powi_pos: "0 < (10::rat) powi e"
  by simp


lemma ten_powi_nat: "(10::rat) powi (e + int k) = 10 powi e * 10 ^ k"
  by (simp add: power_int_add)

lemma rescale_coefficient:
  "0 \<le> coefficient x \<Longrightarrow> coefficient (rescale k x) = round_half_even (coefficient x) (10 ^ k)"
  by (cases "coefficient x = 0") (simp_all add: rescale_def round_half_even_def)

lemma rescale_exponent: "exponent (rescale k x) = exponent x + int k"
  by (simp add: rescale_def)



lemma rescale_ge:
  assumes c: "0 \<le> coefficient x"
    and le: "of_int n * 10 powi (exponent x + int k) \<le> dec_value x"
  shows "of_int n * 10 powi (exponent x + int k) \<le> dec_value (rescale k x)"
proof -
  have "of_int (n * 10 ^ k) * (10::rat) powi exponent x \<le> of_int (coefficient x) * 10 powi exponent x"
    using le by (simp add: dec_value_def ten_powi_nat mult_ac)
  then have "(of_int (n * 10 ^ k) :: rat) \<le> of_int (coefficient x)"
    using ten_powi_pos [of "exponent x"] by (simp only: mult_le_cancel_right_pos)
  then have "n * 10 ^ k \<le> coefficient x"
    by (simp only: of_int_le_iff)
  then have "n \<le> round_half_even (coefficient x) (10 ^ k)"
    by (intro round_half_even_ge) simp_all
  then have "(of_int n :: rat) \<le> of_int (round_half_even (coefficient x) (10 ^ k))"
    by (simp only: of_int_le_iff)
  then have "of_int n * (10::rat) powi (exponent x + int k)
      \<le> of_int (round_half_even (coefficient x) (10 ^ k)) * 10 powi (exponent x + int k)"
    using ten_powi_pos [of "exponent x + int k"] by (simp only: mult_le_cancel_right_pos)
  then show ?thesis
    using c by (simp add: dec_value_def rescale_coefficient rescale_exponent)
qed







lemma dec_value_pos_iff: "0 < dec_value x \<longleftrightarrow> 0 < coefficient x"
proof
  assume "0 < dec_value x"
  then have "0 < (of_int (coefficient x) :: rat) * 10 powi exponent x" by (simp only: dec_value_def)
  then have "0 < (of_int (coefficient x) :: rat)" using ten_powi_pos by (rule zero_less_mult_pos2)
  then show "0 < coefficient x" by (simp only: of_int_0_less_iff)
next
  assume "0 < coefficient x"
  then have "0 < (of_int (coefficient x) :: rat)" by (simp only: of_int_0_less_iff)
  then have "0 < (of_int (coefficient x) :: rat) * 10 powi exponent x" using ten_powi_pos by (rule mult_pos_pos)
  then show "0 < dec_value x" by (simp only: dec_value_def)
qed



lemma ten_powi_diff: "e \<le> a \<Longrightarrow> (10::rat) ^ nat (a - e) * 10 powi e = 10 powi a"
  using ten_powi_nat [of e "nat (a - e)"] by (simp add: mult_ac)







lemma py_round_exponent: "exponent (py_round n x) = - int n"
  by (simp add: py_round_def rescale_def)







lemma price_valid:
  assumes lo: "double_4_99 \<le> dec_value x" and hi: "dec_value x \<le> double_59_99"
  shows "valid_price (py_round 2 x)"
proof -
  have "0 < dec_value x" using lo by (simp add: double_4_99_def)
  then have c: "0 \<le> coefficient x" by (simp add: dec_value_pos_iff)
  have lo': "of_int 499 * 10 powi (- 2) \<le> dec_value x"
    using lo by (simp add: double_4_99_def)
  have hi': "2 * dec_value x < of_int 11999 * 10 powi (- 2)"
    using hi by (simp add: double_59_99_def)
  have "499 \<le> coefficient (py_round 2 x) \<and> coefficient (py_round 2 x) \<le> 5999"
  proof (cases "exponent x < - 2")
    case True
    define k where "k = nat (- 2 - exponent x)"
    have e: "exponent x + int k = - 2" using True by (simp add: k_def)
    have r: "py_round 2 x = rescale k x" using True by (simp add: py_round_def k_def)
    have "of_int 499 * 10 powi (exponent x + int k) \<le> dec_value (rescale k x)"
      using c lo' [folded e] by (rule rescale_ge)
    then have "of_int 499 * (10::rat) powi (exponent x + int k)
        \<le> of_int (coefficient (rescale k x)) * 10 powi (exponent x + int k)"
      by (simp only: dec_value_def rescale_exponent)
    then have "(of_int 499 :: rat) \<le> of_int (coefficient (rescale k x))"
      using ten_powi_pos [of "exponent x + int k"] by (simp only: mult_le_cancel_right_pos)
    then have lower: "499 \<le> coefficient (rescale k x)" by (simp only: of_int_le_iff)
    have "of_int (2 * coefficient x) * (10::rat) powi exponent x
        < of_int (11999 * 10 ^ k) * 10 powi exponent x"
      using hi' [folded e] by (simp add: dec_value_def ten_powi_nat mult_ac)
    then have "(of_int (2 * coefficient x) :: rat) < of_int (11999 * 10 ^ k)"
      using ten_powi_pos [of "exponent x"] by (simp only: mult_less_cancel_right_pos)
    then have "2 * coefficient x < (2 * 5999 + 1) * 10 ^ k" by (simp only: of_int_less_iff) simp
    then have "round_half_even (coefficient x) (10 ^ k) \<le> 5999"
      by (intro round_half_even_below_half) simp_all
    with lower c show ?thesis by (simp add: r rescale_coefficient)
  next
    case False
    define n where "n = coefficient x * 10 ^ nat (exponent x + 2)"
    have r: "coefficient (py_round 2 x) = n" using False by (simp add: py_round_def n_def)
    have "(10::rat) ^ nat (exponent x - (- 2)) * 10 powi (- 2) = 10 powi exponent x"
      using False by (intro ten_powi_diff) simp
    then have v: "dec_value x = of_int n * 10 powi (- 2)"
      by (simp add: dec_value_def n_def mult.assoc)
    have "(of_int 499 :: rat) \<le> of_int n"
      using lo' [unfolded v] ten_powi_pos [of "- 2"] by (simp only: mult_le_cancel_right_pos)
    then have lower: "499 \<le> n" by (simp only: of_int_le_iff)
    have "of_int (2 * n) * (10::rat) powi (- 2) < of_int 11999 * 10 powi (- 2)"
      using hi' [unfolded v] by (simp add: mult_ac)
    then have "(of_int (2 * n) :: rat) < of_int 11999"
      using ten_powi_pos [of "- 2"] by (simp only: mult_less_cancel_right_pos)
    then have "2 * n < 11999" by (simp only: of_int_less_iff)
    with lower show ?thesis by (simp add: r)
  qed
  then show ?thesis using py_round_exponent [of 2 x] by (simp add: valid_price_def)
qed

lemma generate_book_valid:
  assumes "generate_book i u = Some b"
  shows "b_book_id b = i \<and> valid_price (b_price b)"
proof -
  from assms have "double_4_99 \<le> dec_value u \<and> dec_value u \<le> double_59_99"
    and b: "b = \<lparr>b_book_id = i, b_price = py_round 2 u\<rparr>"
    by (simp_all add: generate_book_def uniform_def split: if_splits)
  then show ?thesis by (simp add: price_valid)
qed
















end
